theory Spec2Isabelle
  imports Main "HOL-Library.Multiset" "HOL-Library.Char_ord" "HOL-Library.List_Lexorder"
begin

section \<open>Python values, exceptions and dictionaries\<close>

text \<open>
  The values the two modules handle: what a YAML checkpoint file or a keyword dictionary
  holds, and opaque objects of the collaborators (data frames, loaded batches, suites),
  which are elements of the type parameter \<open>'o\<close>.
\<close>

datatype 'o pyval =
    PNone
  | PBool bool
  | PInt int
  | PStr string
  | PList "'o pyval list"
  | PDict "(string \<times> 'o pyval) list"
  | PObj 'o

text \<open>
  Exceptions are a class and a message; \<open>sys.exit(n)\<close> raises \<open>SystemExit\<close>, which
  no \<open>except\<close> clause of the two modules catches.
\<close>

datatype exn_class =
    CheckpointNotFoundError
  | CheckpointError
  | DataContextError
  | InvalidBatchKwargsError
  | InvalidBatchIdError
  | KeyError
  | TypeError
  | OtherError string

datatype exn = Exception exn_class string | SystemExit int

text \<open>
  A Python \<open>dict\<close> keeps its keys in insertion order and holds each key once: it is an
  association list in which storing under a key that is present replaces the value in place.
\<close>

type_synonym 'o pydict = "(string \<times> 'o pyval) list"

fun dict_setitem :: "'o pydict \<Rightarrow> string \<Rightarrow> 'o pyval \<Rightarrow> 'o pydict" where
  "dict_setitem [] k v = [(k, v)]"
| "dict_setitem ((k', v') # d) k v =
     (if k' = k then (k', v) # d else (k', v') # dict_setitem d k v)"

definition dict_contains :: "'o pydict \<Rightarrow> string \<Rightarrow> bool" where
  \<comment> \<open>\<open>k in d\<close>\<close>
  "dict_contains d k = (map_of d k \<noteq> None)"

definition dict_get :: "'o pydict \<Rightarrow> string \<Rightarrow> 'o pyval" where
  \<comment> \<open>\<open>d.get(k)\<close>: the value, or \<open>None\<close> when the key is absent\<close>
  "dict_get d k = (case map_of d k of None \<Rightarrow> PNone | Some v \<Rightarrow> v)"

definition dict_getitem :: "'o pydict \<Rightarrow> string \<Rightarrow> exn + 'o pyval" where
  \<comment> \<open>\<open>d[k]\<close>: raises \<open>KeyError\<close> when the key is absent\<close>
  "dict_getitem d k = (case map_of d k of None \<Rightarrow> Inl (Exception KeyError k) | Some v \<Rightarrow> Inr v)"

section \<open>\<open>great_expectations/datasource/types/batch_kwargs.py\<close>\<close>

text \<open>
  Every class of the module derives from \<open>BatchKwargs\<close>
  (\<open>great_expectations.core.id_dict\<close>), a \<open>dict\<close> subclass, and starts its
  constructor with \<open>super().__init__(*args, **kwargs)\<close>.
\<close>

definition BatchKwargs_init :: "(string \<times> 'o pyval) list \<Rightarrow> 'o pydict" where
  \<comment> \<open>Modelled from the spec: the base class \<open>BatchKwargs\<close> is not among the sources. The spec:
     "an ordered mapping from string key to arbitrary value"; construction "takes an ordered
     mapping of arbitrary key/value pairs (same interface as a generic dictionary)". The
     argument is the sequence of key/value pairs the constructor receives, stored in order.\<close>
  "BatchKwargs_init pairs = foldl (\<lambda>d (k, v). dict_setitem d k v) [] pairs"

definition BatchMarkers_init :: "(string \<times> 'o pyval) list \<Rightarrow> exn + 'o pydict" where
  "BatchMarkers_init pairs =
     (let self = BatchKwargs_init pairs in
      if \<not> dict_contains self ''ge_load_time''
      then Inl (Exception InvalidBatchIdError ''BatchMarkers requires a ge_load_time'')
      else Inr self)"

definition BatchMarkers_ge_load_time :: "'o pydict \<Rightarrow> 'o pyval" where
  "BatchMarkers_ge_load_time self = dict_get self ''ge_load_time''"

text \<open>
  \<open>SqlAlchemyDatasourceBatchKwargs\<close> (lines 39-49) adds two accessors, which its two
  subclasses inherit.
\<close>

definition SqlAlchemyDatasourceBatchKwargs_limit :: "'o pydict \<Rightarrow> 'o pyval" where
  "SqlAlchemyDatasourceBatchKwargs_limit self = dict_get self ''limit''"

definition SqlAlchemyDatasourceBatchKwargs_schema :: "'o pydict \<Rightarrow> 'o pyval" where
  "SqlAlchemyDatasourceBatchKwargs_schema self = dict_get self ''schema''"

definition PathBatchKwargs_init :: "(string \<times> 'o pyval) list \<Rightarrow> exn + 'o pydict" where
  "PathBatchKwargs_init pairs =
     (let self = BatchKwargs_init pairs in
      if \<not> dict_contains self ''path''
      then Inl (Exception InvalidBatchKwargsError ''PathBatchKwargs requires a path element'')
      else Inr self)"

definition PathBatchKwargs_path :: "'o pydict \<Rightarrow> 'o pyval" where
  "PathBatchKwargs_path self = dict_get self ''path''"

definition PathBatchKwargs_reader_method :: "'o pydict \<Rightarrow> 'o pyval" where
  "PathBatchKwargs_reader_method self = dict_get self ''reader_method''"

definition S3BatchKwargs_init :: "(string \<times> 'o pyval) list \<Rightarrow> exn + 'o pydict" where
  "S3BatchKwargs_init pairs =
     (let self = BatchKwargs_init pairs in
      if \<not> dict_contains self ''s3''
      then Inl (Exception InvalidBatchKwargsError ''S3BatchKwargs requires a path element'')
      else Inr self)"

definition S3BatchKwargs_s3 :: "'o pydict \<Rightarrow> 'o pyval" where
  "S3BatchKwargs_s3 self = dict_get self ''s3''"

definition S3BatchKwargs_reader_method :: "'o pydict \<Rightarrow> 'o pyval" where
  "S3BatchKwargs_reader_method self = dict_get self ''reader_method''"

definition InMemoryBatchKwargs_init :: "(string \<times> 'o pyval) list \<Rightarrow> exn + 'o pydict" where
  "InMemoryBatchKwargs_init pairs =
     (let self = BatchKwargs_init pairs in
      if \<not> dict_contains self ''dataset''
      then Inl (Exception InvalidBatchKwargsError
                  ''InMemoryBatchKwargs requires a 'dataset' element'')
      else Inr self)"

definition InMemoryBatchKwargs_dataset :: "'o pydict \<Rightarrow> 'o pyval" where
  "InMemoryBatchKwargs_dataset self = dict_get self ''dataset''"

text \<open>
  The two data-frame subclasses ask the runtime whether a value is a frame of their
  backend. \<open>pandas_DataFrame\<close> is \<open>isinstance(_, pd.DataFrame)\<close> on an object; pandas is
  a requirement of the package and the source imports it unguarded (line 95).
  \<open>pyspark\<close> is \<open>None\<close> where \<open>import pyspark\<close> raises \<open>ImportError\<close> (lines 103-105),
  and otherwise \<open>isinstance(_, pyspark.sql.DataFrame)\<close>.
\<close>

record 'o backends =
  pandas_DataFrame :: "'o \<Rightarrow> bool"
  pyspark :: "('o \<Rightarrow> bool) option"

definition isinstance_obj :: "('o \<Rightarrow> bool) \<Rightarrow> 'o pyval \<Rightarrow> bool" where
  \<comment> \<open>the built-in values are instances of neither frame class\<close>
  "isinstance_obj cls v = (case v of PObj x \<Rightarrow> cls x | _ \<Rightarrow> False)"

definition PandasDatasourceInMemoryBatchKwargs_init ::
  "'o backends \<Rightarrow> (string \<times> 'o pyval) list \<Rightarrow> exn + 'o pydict" where
  "PandasDatasourceInMemoryBatchKwargs_init env pairs =
     (case InMemoryBatchKwargs_init pairs of
        Inl e \<Rightarrow> Inl e
      | Inr self \<Rightarrow>
          (case dict_getitem self ''dataset'' of
             Inl e \<Rightarrow> Inl e
           | Inr dataset \<Rightarrow>
               if \<not> isinstance_obj (pandas_DataFrame env) dataset
               then Inl (Exception InvalidBatchKwargsError
                  ''PandasDatasourceInMemoryBatchKwargs 'dataset' must be a pandas DataFrame'')
               else Inr self))"

definition SparkDFDatasourceInMemoryBatchKwargs_init ::
  "'o backends \<Rightarrow> (string \<times> 'o pyval) list \<Rightarrow> exn + 'o pydict" where
  "SparkDFDatasourceInMemoryBatchKwargs_init env pairs =
     (case InMemoryBatchKwargs_init pairs of
        Inl e \<Rightarrow> Inl e
      | Inr self \<Rightarrow>
          (case pyspark env of
             None \<Rightarrow> Inl (Exception InvalidBatchKwargsError
               (''SparkDFDatasourceInMemoryBatchKwargs requires a valid pyspark installation, ''
                @ ''but pyspark import failed.''))
           | Some pyspark_sql_DataFrame \<Rightarrow>
               (case dict_getitem self ''dataset'' of
                  Inl e \<Rightarrow> Inl e
                | Inr dataset \<Rightarrow>
                    if \<not> isinstance_obj pyspark_sql_DataFrame dataset
                    then Inl (Exception InvalidBatchKwargsError
                      ''SparkDFDatasourceInMemoryBatchKwargs 'dataset' must be a spark DataFrame'')
                    else Inr self)))"

definition SqlAlchemyDatasourceTableBatchKwargs_init ::
  "(string \<times> 'o pyval) list \<Rightarrow> exn + 'o pydict" where
  "SqlAlchemyDatasourceTableBatchKwargs_init pairs =
     (let self = BatchKwargs_init pairs in
      if \<not> dict_contains self ''table''
      then Inl (Exception InvalidBatchKwargsError
                  ''SqlAlchemyDatasourceTableBatchKwargs requires a 'table' element'')
      else Inr self)"

definition SqlAlchemyDatasourceTableBatchKwargs_table :: "'o pydict \<Rightarrow> 'o pyval" where
  "SqlAlchemyDatasourceTableBatchKwargs_table self = dict_get self ''table''"

definition SqlAlchemyDatasourceQueryBatchKwargs_init ::
  "(string \<times> 'o pyval) list \<Rightarrow> exn + 'o pydict" where
  "SqlAlchemyDatasourceQueryBatchKwargs_init pairs =
     (let self = BatchKwargs_init pairs in
      if \<not> dict_contains self ''query''
      then Inl (Exception InvalidBatchKwargsError
                  ''SqlAlchemyDatasourceQueryBatchKwargs requires a 'query' element'')
      else Inr self)"

definition SqlAlchemyDatasourceQueryBatchKwargs_query :: "'o pydict \<Rightarrow> 'o pyval" where
  "SqlAlchemyDatasourceQueryBatchKwargs_query self = dict_get self ''query''"

definition SqlAlchemyDatasourceQueryBatchKwargs_query_parameters ::
  "'o pydict \<Rightarrow> 'o pyval" where
  "SqlAlchemyDatasourceQueryBatchKwargs_query_parameters self = dict_get self ''query_parameters''"

definition SparkDFDatasourceQueryBatchKwargs_init ::
  "(string \<times> 'o pyval) list \<Rightarrow> exn + 'o pydict" where
  "SparkDFDatasourceQueryBatchKwargs_init pairs =
     (let self = BatchKwargs_init pairs in
      if \<not> dict_contains self ''query''
      then Inl (Exception InvalidBatchKwargsError
                  ''SparkDFDatasourceQueryBatchKwargs requires a 'query' element'')
      else Inr self)"

definition SparkDFDatasourceQueryBatchKwargs_query :: "'o pydict \<Rightarrow> 'o pyval" where
  "SparkDFDatasourceQueryBatchKwargs_query self = dict_get self ''query''"


text \<open>
  Two mappings have the same content where Python's \<open>==\<close> holds of them: the same keys,
  with equal values, in whatever order the keys were inserted, also in the mappings and
  sequences nested in the values; \<open>True\<close> and \<open>False\<close> equal \<open>1\<close> and \<open>0\<close>, and an object of a
  collaborator equals itself.
\<close>

function (sequential) py_eq :: "'o pyval \<Rightarrow> 'o pyval \<Rightarrow> bool" where
  "py_eq PNone PNone = True"
| "py_eq (PBool a) (PBool b) = (a = b)"
| "py_eq (PBool a) (PInt b) = ((if a then 1 else 0) = b)"
| "py_eq (PInt a) (PBool b) = (a = (if b then 1 else 0))"
| "py_eq (PInt a) (PInt b) = (a = b)"
| "py_eq (PStr a) (PStr b) = (a = b)"
| "py_eq (PList xs) (PList ys) =
     (length xs = length ys \<and> list_all (\<lambda>(x, y). py_eq x y) (zip xs ys))"
| "py_eq (PDict d1) (PDict d2) =
     (length d1 = length d2
      \<and> list_all (\<lambda>(k, v). case map_of d2 k of None \<Rightarrow> False | Some w \<Rightarrow> py_eq v w) d1)"
| "py_eq (PObj x) (PObj y) = (x = y)"
| "py_eq _ _ = False"
  by pat_completeness auto
termination
proof (relation "measure (\<lambda>(a, b). size a)")
  show "wf (measure (\<lambda>(a, b). size a))" by simp
next
  fix xs ys :: "'o pyval list" and z x y
  assume "z \<in> set (zip xs ys)" and "(x, y) = z"
  then have "x \<in> set xs" by (auto dest: set_zip_leftD)
  then have "size x \<le> size_list size xs" by (simp add: size_list_estimation')
  then show "((x, y), (PList xs, PList ys)) \<in> measure (\<lambda>(a, b). size a)" by simp
next
  fix d1 d2 :: "(string \<times> 'o pyval) list" and z k v w
  assume "z \<in> set d1" and "(k, v) = z" and "map_of d2 k = Some w"
  then have "(k, v) \<in> set d1" by simp
  then have "size v \<le> size_list (size_prod (\<lambda>x. 0) size) d1"
    by (rule size_list_estimation') simp
  then show "((v, w), (PDict d1, PDict d2)) \<in> measure (\<lambda>(a, b). size a)" by simp
qed

text \<open>
  An association list stands for a Python \<open>dict\<close> where it holds each key once, at every
  level of nesting.
\<close>

fun well_formed :: "'o pyval \<Rightarrow> bool" where
  "well_formed (PList xs) = list_all well_formed xs"
| "well_formed (PDict d) = (distinct (map fst d) \<and> list_all (\<lambda>(k, v). well_formed v) d)"
| "well_formed _ = True"

text \<open>
  The fingerprint of a \<open>BatchKwargs\<close> is computed by its base class.
\<close>

fun canonical :: "'o pyval \<Rightarrow> 'o pyval" where
  \<comment> \<open>Modelled from the spec: part of the fingerprint function below. The content of a value
     with the insertion order taken out: the items of every mapping in key order, a truth
     value as the number it equals.\<close>
  "canonical (PBool b) = PInt (if b then 1 else 0)"
| "canonical (PList xs) = PList (map canonical xs)"
| "canonical (PDict d) = PDict (sort_key fst (map (\<lambda>(k, v). (k, canonical v)) d))"
| "canonical v = v"

definition batch_kwargs_fingerprint :: "('o pyval \<Rightarrow> 'f) \<Rightarrow> 'o pydict \<Rightarrow> 'f" where
  \<comment> \<open>Modelled from the spec: the fingerprint function of the base class \<open>BatchKwargs\<close>
     (\<open>great_expectations.core.id_dict\<close>) is not among the sources. The spec: "the BatchKwargs
     mapping's content deterministically hashes to a fingerprint", "a deterministic,
     content-based identifier derived from a mapping's key/value content, independent of
     ordering". The content is handed to a digest function, which is a parameter.\<close>
  "batch_kwargs_fingerprint digest self = digest (canonical (PDict self))"

section \<open>\<open>great_expectations/cli/checkpoint.py\<close>\<close>

subsection \<open>Effects and collaborators\<close>

text \<open>
  The commands act on the outside world through functions of other modules. Each such
  call the module makes is recorded, in order, in a trace: the messages it prints, the
  usage-statistics events it sends, and its calls to the suite loader, the batch loader and
  the validation operator. What a collaborator prints or sends inside its own body is not
  part of this module and is not recorded.
\<close>

datatype 'o effect =
    CliMessage string
  | CliMessageList "string list" string
  | UsageMessage string bool
  | LoadExpectationSuite "'o pyval"
  | LoadBatch "'o pyval" "'o pyval"
  | RunValidationOperator "'o pyval" "'o pyval list"

type_synonym 'o trace = "'o effect list"

text \<open>
  A statement maps the trace so far to a result (\<open>Inl\<close>: the exception raised) and the
  extended trace.
\<close>

definition pure :: "exn + 'a \<Rightarrow> 't \<Rightarrow> (exn + 'a) \<times> 't" where
  "pure r t = (r, t)"

definition then_do ::
  "('t \<Rightarrow> (exn + 'a) \<times> 't) \<Rightarrow> ('a \<Rightarrow> 't \<Rightarrow> (exn + 'b) \<times> 't) \<Rightarrow> 't \<Rightarrow> (exn + 'b) \<times> 't" where
  "then_do m f t = (case m t of (Inl e, t') \<Rightarrow> (Inl e, t') | (Inr x, t') \<Rightarrow> f x t')"

definition cli_message :: "string \<Rightarrow> 'o trace \<Rightarrow> (exn + unit) \<times> 'o trace" where
  "cli_message s t = (Inr (), t @ [CliMessage s])"

definition cli_message_list ::
  "string list \<Rightarrow> string \<Rightarrow> 'o trace \<Rightarrow> (exn + unit) \<times> 'o trace" where
  "cli_message_list string_list list_intro_string t =
     (Inr (), t @ [CliMessageList string_list list_intro_string])"

definition send_usage_message ::
  "'c \<Rightarrow> string \<Rightarrow> bool \<Rightarrow> 'o trace \<Rightarrow> (exn + unit) \<times> 'o trace" where
  "send_usage_message context event success t = (Inr (), t @ [UsageMessage event success])"

definition sys_exit :: "int \<Rightarrow> 't \<Rightarrow> (exn + 'a) \<times> 't" where
  "sys_exit n t = (Inl (SystemExit n), t)"

text \<open>
  The collaborators are parameters: the project context and its methods, the helpers of
  \<open>great_expectations.cli.util\<close> and \<open>great_expectations.cli.toolkit\<close>, the behaviour of
  the collaborators' objects under subscription, iteration and truth testing, and the
  subclass relation of the exception classes of \<open>great_expectations.exceptions\<close>.
\<close>

record ('ctx, 'o) collaborators =
  load_data_context_with_error_handling :: "string option \<Rightarrow> exn + 'ctx"
  get_checkpoint :: "'ctx \<Rightarrow> string \<Rightarrow> exn + 'o pyval"
  list_checkpoints :: "'ctx \<Rightarrow> exn + string list"
  load_expectation_suite :: "'ctx \<Rightarrow> 'o pyval \<Rightarrow> exn + 'o pyval"
  load_batch :: "'ctx \<Rightarrow> 'o pyval \<Rightarrow> 'o pyval \<Rightarrow> exn + 'o pyval"
  run_validation_operator :: "'ctx \<Rightarrow> 'o pyval \<Rightarrow> 'o pyval list \<Rightarrow> exn + 'o pyval"
  obj_getitem :: "'o \<Rightarrow> string \<Rightarrow> exn + 'o pyval"
  obj_iter :: "'o \<Rightarrow> exn + 'o pyval list"
  obj_bool :: "'o \<Rightarrow> bool"
  issubclass :: "exn_class \<Rightarrow> exn_class \<Rightarrow> bool"

definition isinstance_exn ::
  "('ctx, 'o) collaborators \<Rightarrow> exn_class \<Rightarrow> exn_class \<Rightarrow> bool" where
  \<comment> \<open>whether \<open>except cls\<close> catches an exception of class \<open>c\<close>\<close>
  "isinstance_exn env c cls = (c = cls \<or> issubclass env c cls)"

definition getitem :: "('ctx, 'o) collaborators \<Rightarrow> 'o pyval \<Rightarrow> string \<Rightarrow> exn + 'o pyval" where
  \<comment> \<open>\<open>v[k]\<close> with a string key\<close>
  "getitem env v k =
     (case v of
        PDict d \<Rightarrow> dict_getitem d k
      | PObj x \<Rightarrow> obj_getitem env x k
      | PList xs \<Rightarrow> Inl (Exception TypeError ''list indices must be integers or slices, not str'')
      | PStr s \<Rightarrow> Inl (Exception TypeError ''string indices must be integers'')
      | PNone \<Rightarrow> Inl (Exception TypeError ''NoneType object is not subscriptable'')
      | PBool b \<Rightarrow> Inl (Exception TypeError ''bool object is not subscriptable'')
      | PInt i \<Rightarrow> Inl (Exception TypeError ''int object is not subscriptable''))"

definition iterate :: "('ctx, 'o) collaborators \<Rightarrow> 'o pyval \<Rightarrow> exn + 'o pyval list" where
  \<comment> \<open>the values \<open>for x in v\<close> runs through\<close>
  "iterate env v =
     (case v of
        PList xs \<Rightarrow> Inr xs
      | PDict d \<Rightarrow> Inr (map (\<lambda>(k, _). PStr k) d)
      | PStr s \<Rightarrow> Inr (map (\<lambda>c. PStr [c]) s)
      | PObj x \<Rightarrow> obj_iter env x
      | PNone \<Rightarrow> Inl (Exception TypeError ''NoneType object is not iterable'')
      | PBool b \<Rightarrow> Inl (Exception TypeError ''bool object is not iterable'')
      | PInt i \<Rightarrow> Inl (Exception TypeError ''int object is not iterable''))"

definition truthy :: "('ctx, 'o) collaborators \<Rightarrow> 'o pyval \<Rightarrow> bool" where
  "truthy env v =
     (case v of
        PNone \<Rightarrow> False
      | PBool b \<Rightarrow> b
      | PInt i \<Rightarrow> i \<noteq> 0
      | PStr s \<Rightarrow> s \<noteq> []
      | PList xs \<Rightarrow> xs \<noteq> []
      | PDict d \<Rightarrow> d \<noteq> []
      | PObj x \<Rightarrow> obj_bool env x)"

function str_nat :: "nat \<Rightarrow> string" where
  "str_nat n =
     (if n < 10 then [''0123456789'' ! n]
      else str_nat (n div 10) @ [''0123456789'' ! (n mod 10)])"
  by pat_completeness auto
termination
  by (relation "measure id") auto

subsection \<open>The commands\<close>

text \<open>
  \<open>_exit_with_failure_message(context, usage_event, message)\<close> (lines 169-174) has three
  required parameters. It is applied to the list of the positional arguments of a call, so
  that a call with too few arguments fails as it does in Python: \<open>TypeError\<close>, before the
  body runs.
\<close>

datatype 'ctx pyarg = ArgContext 'ctx | ArgStr string

fun exit_with_failure_message ::
  "'ctx pyarg list \<Rightarrow> 'o trace \<Rightarrow> (exn + unit) \<times> 'o trace" where
  "exit_with_failure_message [context, ArgStr usage_event, ArgStr message] t =
     then_do (cli_message message) (\<lambda>_.
     then_do (send_usage_message context usage_event False) (\<lambda>_.
     sys_exit 1)) t"
| "exit_with_failure_message [a] t =
     (Inl (Exception TypeError
        (''_exit_with_failure_message() missing 2 required positional arguments: ''
         @ [CHR 0x27] @ ''usage_event'' @ [CHR 0x27] @ '' and ''
         @ [CHR 0x27] @ ''message'' @ [CHR 0x27])), t)"
| "exit_with_failure_message args t =
     (Inl (Exception TypeError ''_exit_with_failure_message() got unexpected arguments''), t)"

definition checkpoint_list ::
  "('ctx, 'o) collaborators \<Rightarrow> string option \<Rightarrow> 'o trace \<Rightarrow> (exn + unit) \<times> 'o trace" where
  "checkpoint_list env directory =
     then_do (pure (load_data_context_with_error_handling env directory)) (\<lambda>context.
     then_do (pure (list_checkpoints env context)) (\<lambda>checkpoints.
       if checkpoints = []
       then then_do (cli_message ''No checkpoints found.'') (\<lambda>_. sys_exit 0)
       else
         let number_found = length checkpoints;
             plural = (if number_found > 1 then ''s'' else []);
             message = ''Found '' @ str_nat number_found @ '' checkpoint'' @ plural @ ''.''
         in cli_message_list checkpoints message))"

text \<open>
  The inner loop of \<open>checkpoint_run\<close> (lines 137-146) over the suite names of one batch
  descriptor. \<open>batch\<close> is the loop variable of the outer loop, which line 143 assigns to.
  The \<open>except\<close> clause at line 145 calls \<open>_exit_with_failure_message\<close> with the message
  as its only argument.
\<close>

fun suite_loop ::
  "('ctx, 'o) collaborators \<Rightarrow> 'ctx \<Rightarrow> 'o pyval list \<Rightarrow> 'o pyval \<Rightarrow> 'o pyval list
   \<Rightarrow> 'o trace \<Rightarrow> (exn + 'o pyval list) \<times> 'o trace" where
  "suite_loop env context [] batch batches_to_validate t = (Inr batches_to_validate, t)"
| "suite_loop env context (suite_name # rest) batch batches_to_validate t =
     (case load_expectation_suite env context suite_name of
        Inl e \<Rightarrow> (Inl e, t @ [LoadExpectationSuite suite_name])
      | Inr suite \<Rightarrow>
          (case getitem env batch ''batch_kwargs'' of
             Inl e \<Rightarrow> (Inl e, t @ [LoadExpectationSuite suite_name])
           | Inr batch_kwargs \<Rightarrow>
               (let t1 = t @ [LoadExpectationSuite suite_name, LoadBatch suite batch_kwargs] in
                case load_batch env context suite batch_kwargs of
                  Inr loaded \<Rightarrow>
                    suite_loop env context rest loaded (batches_to_validate @ [loaded]) t1
                | Inl (SystemExit n) \<Rightarrow> (Inl (SystemExit n), t1)
                | Inl (Exception c msg) \<Rightarrow>
                    if isinstance_exn env c DataContextError
                    then (case exit_with_failure_message
                                 [ArgStr (''<red>'' @ msg @ ''</red>'') :: 'ctx pyarg] t1 of
                            (Inl e, t2) \<Rightarrow> (Inl e, t2)
                          | (Inr _, t2) \<Rightarrow>
                              suite_loop env context rest batch (batches_to_validate @ [batch]) t2)
                    else (Inl (Exception c msg), t1))))"

text \<open>The outer loop (line 136) over the batch descriptors of the checkpoint.\<close>

fun batch_loop ::
  "('ctx, 'o) collaborators \<Rightarrow> 'ctx \<Rightarrow> 'o pyval list \<Rightarrow> 'o pyval list
   \<Rightarrow> 'o trace \<Rightarrow> (exn + 'o pyval list) \<times> 'o trace" where
  "batch_loop env context [] batches_to_validate t = (Inr batches_to_validate, t)"
| "batch_loop env context (batch # rest) batches_to_validate t =
     (case getitem env batch ''expectation_suite_names'' of
        Inl e \<Rightarrow> (Inl e, t)
      | Inr names \<Rightarrow>
          (case iterate env names of
             Inl e \<Rightarrow> (Inl e, t)
           | Inr suite_names \<Rightarrow>
               (case suite_loop env context suite_names batch batches_to_validate t of
                  (Inl e, t1) \<Rightarrow> (Inl e, t1)
                | (Inr batches_to_validate1, t1) \<Rightarrow>
                    batch_loop env context rest batches_to_validate1 t1)))"

text \<open>
  Lines 120-133 of \<open>checkpoint_run\<close>: the lookup of the checkpoint with its two
  \<open>except\<close> clauses. \<open>checkpoint_config\<close> keeps its initial value \<open>{}\<close> where a handler
  returns.
\<close>

definition get_checkpoint_config ::
  "('ctx, 'o) collaborators \<Rightarrow> 'ctx \<Rightarrow> string \<Rightarrow> string
   \<Rightarrow> 'o trace \<Rightarrow> (exn + 'o pyval) \<times> 'o trace" where
  "get_checkpoint_config env context usage_event checkpoint =
     (case get_checkpoint env context checkpoint of
        Inr checkpoint_config \<Rightarrow> pure (Inr checkpoint_config)
      | Inl (SystemExit n) \<Rightarrow> pure (Inl (SystemExit n))
      | Inl (Exception c msg) \<Rightarrow>
          if isinstance_exn env c CheckpointNotFoundError
          then then_do
                 (exit_with_failure_message
                    [ArgContext context, ArgStr usage_event,
                     ArgStr (''<red>Could not find checkpoint `'' @ checkpoint
                       @ ''`.</red> Try running:'' @ [CHR 0x0A]
                       @ ''  - `<green>great_expectations checkpoint list</green>` ''
                       @ ''to verify your checkpoint exists'' @ [CHR 0x0A]
                       @ ''  - `<green>great_expectations checkpoint new</green>` ''
                       @ ''to configure a new checkpoint'')])
                 (\<lambda>_. pure (Inr (PDict [])))
          else if isinstance_exn env c CheckpointError
          then then_do
                 (exit_with_failure_message
                    [ArgContext context, ArgStr usage_event,
                     ArgStr (''<red>'' @ msg @ ''</red>'')])
                 (\<lambda>_. pure (Inr (PDict [])))
          else pure (Inl (Exception c msg)))"

definition checkpoint_run ::
  "('ctx, 'o) collaborators \<Rightarrow> string \<Rightarrow> string option
   \<Rightarrow> 'o trace \<Rightarrow> (exn + unit) \<times> 'o trace" where
  "checkpoint_run env checkpoint directory =
     then_do (pure (load_data_context_with_error_handling env directory)) (\<lambda>context.
     let usage_event = ''cli.checkpoint.list'' in
     then_do (get_checkpoint_config env context usage_event checkpoint) (\<lambda>checkpoint_config.
     then_do (pure (getitem env checkpoint_config ''batches'')) (\<lambda>batches.
     then_do (pure (iterate env batches)) (\<lambda>batch_list.
     then_do (batch_loop env context batch_list []) (\<lambda>batches_to_validate.
     then_do (pure (getitem env checkpoint_config ''validation_operator_name''))
       (\<lambda>validation_operator_name.
     then_do (\<lambda>t. (run_validation_operator env context validation_operator_name
                      batches_to_validate,
                    t @ [RunValidationOperator validation_operator_name batches_to_validate]))
       (\<lambda>results.
     then_do (pure (getitem env results ''success'')) (\<lambda>success.
       if \<not> truthy env success
       then then_do (cli_message ''Validation Failed!'') (\<lambda>_.
            then_do (send_usage_message context usage_event True) (\<lambda>_.
            sys_exit 1))
       else then_do (cli_message ''Validation Succeeded!'') (\<lambda>_.
            then_do (send_usage_message context usage_event True) (\<lambda>_.
            sys_exit 0))))))))))"

subsection \<open>The loads, pair by pair\<close>

text \<open>
  A second description of lines 136-146, to compare the loops with. The checkpoint is
  read as the sequence of its pairs of a batch descriptor and one of the descriptor's suite
  names, in order; a pair is marked as the first of its descriptor or not, and a descriptor
  whose suite names cannot be read ends the sequence. One batch is loaded per pair, with the
  suite of the pair and with the kwargs found under \<open>batch_kwargs\<close> in the descriptor for a
  first pair, and in the batch loaded for the pair before for any other pair. The result is
  the sequence of the calls of \<open>load_batch\<close> and, where every step succeeds, the sequence of
  the loaded batches.
\<close>

datatype 'o suite_pair =
    SuitePair "'o pyval" "'o pyval" bool
  | Unreadable

fun descriptor_suite_pairs ::
  "('ctx, 'o) collaborators \<Rightarrow> 'o pyval list \<Rightarrow> 'o suite_pair list" where
  "descriptor_suite_pairs env [] = []"
| "descriptor_suite_pairs env (descriptor # rest) =
     (case getitem env descriptor ''expectation_suite_names'' of
        Inl e \<Rightarrow> [Unreadable]
      | Inr names \<Rightarrow>
          (case iterate env names of
             Inl e \<Rightarrow> [Unreadable]
           | Inr [] \<Rightarrow> descriptor_suite_pairs env rest
           | Inr (suite_name # later_names) \<Rightarrow>
               SuitePair descriptor suite_name True
                 # map (\<lambda>n. SuitePair descriptor n False) later_names
                 @ descriptor_suite_pairs env rest))"

fun pairwise_loads ::
  "('ctx, 'o) collaborators \<Rightarrow> 'ctx \<Rightarrow> 'o suite_pair list \<Rightarrow> 'o pyval
   \<Rightarrow> ('o pyval \<times> 'o pyval) list \<times> 'o pyval list option" where
  "pairwise_loads env context [] previous = ([], Some [])"
| "pairwise_loads env context (Unreadable # rest) previous = ([], None)"
| "pairwise_loads env context (SuitePair descriptor suite_name first # rest) previous =
     (case load_expectation_suite env context suite_name of
        Inl e \<Rightarrow> ([], None)
      | Inr suite \<Rightarrow>
          (case getitem env (if first then descriptor else previous) ''batch_kwargs'' of
             Inl e \<Rightarrow> ([], None)
           | Inr batch_kwargs \<Rightarrow>
               (case load_batch env context suite batch_kwargs of
                  Inl e \<Rightarrow> ([(suite, batch_kwargs)], None)
                | Inr loaded \<Rightarrow>
                    (case pairwise_loads env context rest loaded of
                       (calls, dispatched) \<Rightarrow>
                         ((suite, batch_kwargs) # calls,
                          map_option ((#) loaded) dispatched)))))"

subsection \<open>Reading the trace\<close>

fun messages :: "'o trace \<Rightarrow> string list" where
  "messages [] = []"
| "messages (CliMessage s # t) = s # messages t"
| "messages (CliMessageList items intro # t) = intro # items @ messages t"
| "messages (_ # t) = messages t"

fun usage_events :: "'o trace \<Rightarrow> (string \<times> bool) list" where
  "usage_events [] = []"
| "usage_events (UsageMessage event success # t) = (event, success) # usage_events t"
| "usage_events (_ # t) = usage_events t"

fun load_batch_calls :: "'o trace \<Rightarrow> ('o pyval \<times> 'o pyval) list" where
  "load_batch_calls [] = []"
| "load_batch_calls (LoadBatch suite batch_kwargs # t) = (suite, batch_kwargs) # load_batch_calls t"
| "load_batch_calls (_ # t) = load_batch_calls t"

fun validation_operator_runs :: "'o trace \<Rightarrow> ('o pyval \<times> 'o pyval list) list" where
  "validation_operator_runs [] = []"
| "validation_operator_runs (RunValidationOperator name assets # t) =
     (name, assets) # validation_operator_runs t"
| "validation_operator_runs (_ # t) = validation_operator_runs t"

subsection \<open>Projects of the test suite\<close>

text \<open>
  Concrete collaborators, after the fixtures of \<open>tests/cli/test_checkpoint.py\<close>: a
  project with a pandas datasource over the file \<open>data/Titanic.csv\<close> and the validation
  operator \<open>action_list_operator\<close>, whose run succeeds. Its checkpoints and its suites
  are arguments, and so is the exception the project context raises for a validation
  operator it does not know. A loaded batch is a pandas dataset: subscripting it with a
  string selects a column, and it has no column \<open>batch_kwargs\<close>.
\<close>

datatype ge_object = ExpectationSuite string | Batch string string

definition getitem_path :: "ge_object pyval \<Rightarrow> string option" where
  \<comment> \<open>the \<open>path\<close> of a batch kwargs dictionary, where it has one\<close>
  "getitem_path batch_kwargs =
     (case batch_kwargs of
        PDict d \<Rightarrow> (case map_of d ''path'' of Some (PStr path) \<Rightarrow> Some path | _ \<Rightarrow> None)
      | _ \<Rightarrow> None)"

definition ge_issubclass :: "exn_class \<Rightarrow> exn_class \<Rightarrow> bool" where
  "ge_issubclass c cls =
     ((c, cls) \<in> set [(CheckpointNotFoundError, CheckpointError),
                      (CheckpointNotFoundError, DataContextError),
                      (CheckpointError, DataContextError)])"

definition titanic_data_context ::
  "(string \<times> ge_object pyval) list \<Rightarrow> string list \<Rightarrow> exn
   \<Rightarrow> (string, ge_object) collaborators" where
  "titanic_data_context checkpoints suites unknown_operator =
     \<lparr> load_data_context_with_error_handling = (\<lambda>directory. Inr ''great_expectations''),
       get_checkpoint = (\<lambda>context name.
         case map_of checkpoints name of
           Some checkpoint_config \<Rightarrow> Inr checkpoint_config
         | None \<Rightarrow> Inl (Exception CheckpointNotFoundError name)),
       list_checkpoints = (\<lambda>context. Inr (map fst checkpoints)),
       load_expectation_suite = (\<lambda>context suite_name.
         case suite_name of
           PStr name \<Rightarrow>
             if name \<in> set suites then Inr (PObj (ExpectationSuite name))
             else Inl (SystemExit 1)
         | _ \<Rightarrow> Inl (SystemExit 1)),
       load_batch = (\<lambda>context suite batch_kwargs.
         case (suite, getitem_path batch_kwargs) of
           (PObj (ExpectationSuite name), Some path) \<Rightarrow>
             if path = ''data/Titanic.csv'' then Inr (PObj (Batch name path))
             else Inl (Exception DataContextError (''No such file: '' @ path))
         | _ \<Rightarrow> Inl (Exception DataContextError ''Unable to load the batch'')),
       run_validation_operator = (\<lambda>context name assets_to_validate.
         if name = PStr ''action_list_operator''
         then Inr (PDict [(''success'', PBool True)])
         else Inl unknown_operator),
       obj_getitem = (\<lambda>x k. Inl (Exception KeyError k)),
       obj_iter = (\<lambda>x. Inl (Exception TypeError ''object is not iterable'')),
       obj_bool = (\<lambda>x. True),
       issubclass = ge_issubclass \<rparr>"

definition batch_descriptor :: "string \<Rightarrow> string list \<Rightarrow> ge_object pyval" where
  "batch_descriptor path suite_names =
     PDict [(''batch_kwargs'',
               PDict [(''path'', PStr path), (''datasource'', PStr ''mydatasource''),
                      (''reader_method'', PStr ''read_csv'')]),
            (''expectation_suite_names'', PList (map PStr suite_names))]"

definition checkpoint_definition ::
  "string \<Rightarrow> ge_object pyval list \<Rightarrow> ge_object pyval" where
  "checkpoint_definition validation_operator_name batches =
     PDict [(''validation_operator_name'', PStr validation_operator_name),
            (''batches'', PList batches)]"

section \<open>Properties of the dictionary model\<close>

lemma map_of_dict_setitem: "map_of (dict_setitem d k v) = (map_of d)(k \<mapsto> v)"
  by (induction d) (auto simp: fun_eq_iff)

lemma keys_dict_setitem:
  "map fst (dict_setitem d k v) = (if k \<in> set (map fst d) then map fst d else map fst d @ [k])"
  by (induction d) (auto simp: rev_image_eqI)

lemma distinct_dict_setitem:
  "distinct (map fst d) \<Longrightarrow> distinct (map fst (dict_setitem d k v))"
  by (simp add: keys_dict_setitem)

lemma foldl_dict_setitem_map_of:
  "map_of (foldl (\<lambda>d (k, v). dict_setitem d k v) d0 pairs) = map_of d0 ++ map_of (rev pairs)"
proof (induction pairs arbitrary: d0)
  case Nil
  show ?case by simp
next
  case (Cons p pairs)
  obtain k v where p: "p = (k, v)" by (cases p)
  have "map_of (dict_setitem d0 k v) ++ map_of (rev pairs)
        = map_of d0 ++ (map_of (rev pairs @ [(k, v)]))"
    by (simp add: map_of_dict_setitem fun_eq_iff map_add_def split: option.splits)
  with Cons.IH [of "dict_setitem d0 k v"] show ?case
    by (simp add: p)
qed

lemma foldl_dict_setitem_distinct:
  "distinct (map fst d0) \<Longrightarrow>
   distinct (map fst (foldl (\<lambda>d (k, v). dict_setitem d k v) d0 pairs))"
  by (induction pairs arbitrary: d0) (auto simp: distinct_dict_setitem split: prod.splits)

lemma map_of_BatchKwargs_init: "map_of (BatchKwargs_init pairs) = map_of (rev pairs)"
  by (simp add: BatchKwargs_init_def foldl_dict_setitem_map_of)

lemma distinct_BatchKwargs_init: "distinct (map fst (BatchKwargs_init pairs))"
  by (simp add: BatchKwargs_init_def foldl_dict_setitem_distinct)

lemma dict_contains_BatchKwargs_init:
  "dict_contains (BatchKwargs_init pairs) k = (k \<in> fst ` set pairs)"
proof -
  have "(map_of (rev pairs) k \<noteq> None) = (k \<in> fst ` set (rev pairs))"
    by (simp add: map_of_eq_None_iff)
  then show ?thesis
    by (simp add: dict_contains_def map_of_BatchKwargs_init)
qed

section \<open>BatchMarkers\<close>

text \<open>
  C9. Constructing \<open>BatchMarkers\<close> raises \<open>InvalidBatchIdError\<close> exactly when the key
  \<open>ge_load_time\<close> is absent from the input; when it is present, construction succeeds, the
  object holds the input's content, and the \<open>ge_load_time\<close> accessor returns exactly the
  value stored under that key.
\<close>

theorem BatchMarkers_requires_ge_load_time:
  "((\<exists>msg. BatchMarkers_init pairs = Inl (Exception InvalidBatchIdError msg))
      = (''ge_load_time'' \<notin> fst ` set pairs))
   \<and> ((\<exists>e. BatchMarkers_init pairs = Inl e) = (''ge_load_time'' \<notin> fst ` set pairs))
   \<and> (''ge_load_time'' \<in> fst ` set pairs \<longrightarrow>
        (\<exists>self. BatchMarkers_init pairs = Inr self
           \<and> map_of self = map_of (rev pairs)
           \<and> map_of self ''ge_load_time'' = Some (BatchMarkers_ge_load_time self)))"
proof -
  let ?self = "BatchKwargs_init pairs"
  have present: "''ge_load_time'' \<in> fst ` set pairs \<Longrightarrow>
      map_of ?self ''ge_load_time'' = Some (BatchMarkers_ge_load_time ?self)"
    using dict_contains_BatchKwargs_init [of pairs "''ge_load_time''"]
    by (auto simp: BatchMarkers_ge_load_time_def dict_get_def dict_contains_def)
  show ?thesis
    using present
    by (auto simp: BatchMarkers_init_def Let_def dict_contains_BatchKwargs_init
        map_of_BatchKwargs_init)
qed

theorem BatchMarkers_requires_ge_load_time_witness:
  "BatchMarkers_init ([] :: (string \<times> unit pyval) list)
      = Inl (Exception InvalidBatchIdError ''BatchMarkers requires a ge_load_time'')
   \<and> ''ge_load_time'' \<in> fst ` set [(''ge_load_time'', PStr ''20200401T120000'' :: unit pyval)]
   \<and> (\<exists>self. BatchMarkers_init [(''ge_load_time'', PStr ''20200401T120000'' :: unit pyval)]
          = Inr self
        \<and> BatchMarkers_ge_load_time self = PStr ''20200401T120000'')"
proof -
  have absent: "''ge_load_time'' \<notin> fst ` set ([] :: (string \<times> unit pyval) list)"
    by simp
  have present:
    "''ge_load_time'' \<in> fst ` set [(''ge_load_time'', PStr ''20200401T120000'' :: unit pyval)]"
    by simp
  show ?thesis
    using absent present
      BatchMarkers_requires_ge_load_time
        [of "[(''ge_load_time'', PStr ''20200401T120000'' :: unit pyval)]"]
      BatchMarkers_requires_ge_load_time [of "[] :: (string \<times> unit pyval) list"]
    by (simp add: BatchMarkers_init_def BatchKwargs_init_def dict_contains_def
        BatchMarkers_ge_load_time_def dict_get_def)
qed

section \<open>Required keys and accessors of the variants\<close>

lemma required_key_constructor:
  assumes "init pairs =
     (if \<not> dict_contains (BatchKwargs_init pairs) key
      then Inl (Exception InvalidBatchKwargsError m) else Inr (BatchKwargs_init pairs))"
  shows "((\<exists>msg. init pairs = Inl (Exception InvalidBatchKwargsError msg))
            = (key \<notin> fst ` set pairs))
      \<and> ((\<exists>e. init pairs = Inl e) = (key \<notin> fst ` set pairs))
      \<and> (key \<in> fst ` set pairs \<longrightarrow>
            (\<exists>obj. init pairs = Inr obj \<and> map_of obj = map_of (rev pairs)))"
  using assms by (auto simp: dict_contains_BatchKwargs_init map_of_BatchKwargs_init)

lemma dict_get_stored:
  "(\<forall>v. map_of self key = Some v \<longrightarrow> dict_get self key = v)
   \<and> (map_of self key = None \<longrightarrow> dict_get self key = PNone)"
  by (simp add: dict_get_def)

text \<open>
  C7. For each of the six variants and every input, the constructor raises
  \<open>InvalidBatchKwargsError\<close> exactly when the variant's required key is absent from the
  input, and raises nothing else; when the key is present the constructor returns an object
  that holds the input's content. Every accessor returns exactly the value stored under its
  key, and \<open>None\<close> when the key is absent.
\<close>

theorem batch_kwargs_required_keys:
  fixes pairs :: "(string \<times> 'o pyval) list" and self :: "'o pydict"
  shows
  "(\<forall>(init, key) \<in> set
       [(PathBatchKwargs_init, ''path''),
        (S3BatchKwargs_init, ''s3''),
        (InMemoryBatchKwargs_init, ''dataset''),
        (SqlAlchemyDatasourceTableBatchKwargs_init, ''table''),
        (SqlAlchemyDatasourceQueryBatchKwargs_init, ''query''),
        (SparkDFDatasourceQueryBatchKwargs_init, ''query'')].
      ((\<exists>msg. init pairs = Inl (Exception InvalidBatchKwargsError msg))
          = (key \<notin> fst ` set pairs))
      \<and> ((\<exists>e. init pairs = Inl e) = (key \<notin> fst ` set pairs))
      \<and> (key \<in> fst ` set pairs \<longrightarrow>
            (\<exists>obj. init pairs = Inr obj \<and> map_of obj = map_of (rev pairs))))
   \<and> (\<forall>(accessor, key) \<in> set
       [(PathBatchKwargs_path, ''path''),
        (PathBatchKwargs_reader_method, ''reader_method''),
        (S3BatchKwargs_s3, ''s3''),
        (S3BatchKwargs_reader_method, ''reader_method''),
        (InMemoryBatchKwargs_dataset, ''dataset''),
        (SqlAlchemyDatasourceTableBatchKwargs_table, ''table''),
        (SqlAlchemyDatasourceQueryBatchKwargs_query, ''query''),
        (SqlAlchemyDatasourceQueryBatchKwargs_query_parameters, ''query_parameters''),
        (SqlAlchemyDatasourceBatchKwargs_limit, ''limit''),
        (SqlAlchemyDatasourceBatchKwargs_schema, ''schema''),
        (SparkDFDatasourceQueryBatchKwargs_query, ''query'')].
      (\<forall>v. map_of self key = Some v \<longrightarrow> accessor self = v)
      \<and> (map_of self key = None \<longrightarrow> accessor self = PNone))"
  (is "(\<forall>(init, key) \<in> set ?variants. ?C init key)
     \<and> (\<forall>(accessor, key) \<in> set ?accessors. ?A accessor key)")
proof -
  note ctor = required_key_constructor [where pairs = pairs]
  have c1: "?C PathBatchKwargs_init ''path''"
    by (rule ctor [where init = PathBatchKwargs_init])
       (simp add: PathBatchKwargs_init_def Let_def)
  have c2: "?C S3BatchKwargs_init ''s3''"
    by (rule ctor [where init = S3BatchKwargs_init])
       (simp add: S3BatchKwargs_init_def Let_def)
  have c3: "?C InMemoryBatchKwargs_init ''dataset''"
    by (rule ctor [where init = InMemoryBatchKwargs_init])
       (simp add: InMemoryBatchKwargs_init_def Let_def)
  have c4: "?C SqlAlchemyDatasourceTableBatchKwargs_init ''table''"
    by (rule ctor [where init = SqlAlchemyDatasourceTableBatchKwargs_init])
       (simp add: SqlAlchemyDatasourceTableBatchKwargs_init_def Let_def)
  have c5: "?C SqlAlchemyDatasourceQueryBatchKwargs_init ''query''"
    by (rule ctor [where init = SqlAlchemyDatasourceQueryBatchKwargs_init])
       (simp add: SqlAlchemyDatasourceQueryBatchKwargs_init_def Let_def)
  have c6: "?C SparkDFDatasourceQueryBatchKwargs_init ''query''"
    by (rule ctor [where init = SparkDFDatasourceQueryBatchKwargs_init])
       (simp add: SparkDFDatasourceQueryBatchKwargs_init_def Let_def)
  have ctors: "\<forall>(init, key) \<in> set ?variants. ?C init key"
    unfolding list.set ball_simps prod.case
    by (intro c1 c2 c3 c4 c5 c6 conjI TrueI)
  have accessors: "\<forall>(accessor, key) \<in> set ?accessors. ?A accessor key"
    unfolding list.set ball_simps prod.case
      PathBatchKwargs_path_def PathBatchKwargs_reader_method_def
      S3BatchKwargs_s3_def S3BatchKwargs_reader_method_def InMemoryBatchKwargs_dataset_def
      SqlAlchemyDatasourceTableBatchKwargs_table_def
      SqlAlchemyDatasourceQueryBatchKwargs_query_def
      SqlAlchemyDatasourceQueryBatchKwargs_query_parameters_def
      SqlAlchemyDatasourceBatchKwargs_limit_def SqlAlchemyDatasourceBatchKwargs_schema_def
      SparkDFDatasourceQueryBatchKwargs_query_def
    by (intro dict_get_stored conjI TrueI)
  from ctors accessors show ?thesis by (rule conjI)
qed

theorem batch_kwargs_required_keys_witness:
  "''path'' \<in> fst ` set [(''path'', PStr ''data/Titanic.csv'' :: unit pyval)]
   \<and> PathBatchKwargs_init [(''path'', PStr ''data/Titanic.csv'' :: unit pyval)]
        = Inr [(''path'', PStr ''data/Titanic.csv'')]
   \<and> ''path'' \<notin> fst ` set [(''reader_method'', PStr ''read_csv'' :: unit pyval)]
   \<and> PathBatchKwargs_init [(''reader_method'', PStr ''read_csv'' :: unit pyval)]
        = Inl (Exception InvalidBatchKwargsError ''PathBatchKwargs requires a path element'')
   \<and> map_of [(''path'', PStr ''data/Titanic.csv'' :: unit pyval)] ''path''
        = Some (PStr ''data/Titanic.csv'')
   \<and> PathBatchKwargs_path [(''path'', PStr ''data/Titanic.csv'' :: unit pyval)]
        = PStr ''data/Titanic.csv''
   \<and> map_of [(''path'', PStr ''data/Titanic.csv'' :: unit pyval)] ''reader_method'' = None
   \<and> PathBatchKwargs_reader_method [(''path'', PStr ''data/Titanic.csv'' :: unit pyval)]
        = PNone"
  using batch_kwargs_required_keys
          [of "[(''path'', PStr ''data/Titanic.csv'' :: unit pyval)]"
              "[(''path'', PStr ''data/Titanic.csv'' :: unit pyval)]"]
        batch_kwargs_required_keys
          [of "[(''reader_method'', PStr ''read_csv'' :: unit pyval)]"
              "[(''path'', PStr ''data/Titanic.csv'' :: unit pyval)]"]
  by (simp add: PathBatchKwargs_init_def BatchKwargs_init_def dict_contains_def
        PathBatchKwargs_path_def PathBatchKwargs_reader_method_def dict_get_def)

section \<open>The in-memory variants\<close>

lemma InMemoryBatchKwargs_init_cases:
  "InMemoryBatchKwargs_init pairs =
     (case map_of (rev pairs) ''dataset'' of
        None \<Rightarrow> Inl (Exception InvalidBatchKwargsError
                  ''InMemoryBatchKwargs requires a 'dataset' element'')
      | Some v \<Rightarrow> Inr (BatchKwargs_init pairs))"
  using dict_contains_BatchKwargs_init [of pairs "''dataset''"]
  by (auto simp: InMemoryBatchKwargs_init_def Let_def dict_contains_def map_of_BatchKwargs_init
      split: option.splits)

lemma dict_getitem_BatchKwargs_init:
  "dict_getitem (BatchKwargs_init pairs) k =
     (case map_of (rev pairs) k of None \<Rightarrow> Inl (Exception KeyError k) | Some v \<Rightarrow> Inr v)"
  by (simp add: dict_getitem_def map_of_BatchKwargs_init)

text \<open>
  C8. \<open>PandasDatasourceInMemoryBatchKwargs\<close> is constructed exactly when the input supplies a
  \<open>dataset\<close> that is a pandas DataFrame, and the constructor raises
  \<open>InvalidBatchKwargsError\<close> in every other case. \<open>SparkDFDatasourceInMemoryBatchKwargs\<close>
  is constructed exactly when pyspark is importable and the input supplies a \<open>dataset\<close> that
  is a spark DataFrame, and the constructor raises \<open>InvalidBatchKwargsError\<close> in every other
  case. The constructor itself returns the error: no object is handed out first.
\<close>

theorem in_memory_dataset_type_checks:
  "((\<exists>msg. PandasDatasourceInMemoryBatchKwargs_init env pairs
              = Inl (Exception InvalidBatchKwargsError msg))
      = (\<nexists>v. map_of (rev pairs) ''dataset'' = Some v
              \<and> isinstance_obj (pandas_DataFrame env) v))
   \<and> ((\<exists>self. PandasDatasourceInMemoryBatchKwargs_init env pairs = Inr self)
      = (\<exists>v. map_of (rev pairs) ''dataset'' = Some v
              \<and> isinstance_obj (pandas_DataFrame env) v))
   \<and> ((\<exists>msg. SparkDFDatasourceInMemoryBatchKwargs_init env pairs
              = Inl (Exception InvalidBatchKwargsError msg))
      = (\<nexists>cls v. pyspark env = Some cls \<and> map_of (rev pairs) ''dataset'' = Some v
              \<and> isinstance_obj cls v))
   \<and> ((\<exists>self. SparkDFDatasourceInMemoryBatchKwargs_init env pairs = Inr self)
      = (\<exists>cls v. pyspark env = Some cls \<and> map_of (rev pairs) ''dataset'' = Some v
              \<and> isinstance_obj cls v))"
  by (auto simp: PandasDatasourceInMemoryBatchKwargs_init_def
        SparkDFDatasourceInMemoryBatchKwargs_init_def InMemoryBatchKwargs_init_cases
        dict_getitem_BatchKwargs_init split: option.splits)

theorem in_memory_dataset_type_checks_witness:
  "PandasDatasourceInMemoryBatchKwargs_init
      \<lparr>pandas_DataFrame = (\<lambda>x. x = ''pandas frame''), pyspark = None\<rparr>
      [(''dataset'', PObj ''pandas frame'')]
     = Inr [(''dataset'', PObj ''pandas frame'')]
   \<and> (\<exists>msg. PandasDatasourceInMemoryBatchKwargs_init
      \<lparr>pandas_DataFrame = (\<lambda>x. x = ''pandas frame''), pyspark = None\<rparr>
      [(''dataset'', PList [PInt 1, PInt 2])]
     = Inl (Exception InvalidBatchKwargsError msg))
   \<and> (\<exists>msg. SparkDFDatasourceInMemoryBatchKwargs_init
      \<lparr>pandas_DataFrame = (\<lambda>x. x = ''pandas frame''), pyspark = None\<rparr>
      [(''dataset'', PObj ''spark frame'')]
     = Inl (Exception InvalidBatchKwargsError msg))
   \<and> (\<exists>msg. SparkDFDatasourceInMemoryBatchKwargs_init
      \<lparr>pandas_DataFrame = (\<lambda>x. x = ''pandas frame''),
       pyspark = Some (\<lambda>x. x = ''spark frame'')\<rparr>
      [(''dataset'', PObj ''pandas frame'')]
     = Inl (Exception InvalidBatchKwargsError msg))"
  using in_memory_dataset_type_checks
          [of "\<lparr>pandas_DataFrame = (\<lambda>x. x = ''pandas frame''), pyspark = None\<rparr>"
              "[(''dataset'', PObj ''pandas frame'')]"]
        in_memory_dataset_type_checks
          [of "\<lparr>pandas_DataFrame = (\<lambda>x. x = ''pandas frame''), pyspark = None\<rparr>"
              "[(''dataset'', PList [PInt 1, PInt 2])]"]
        in_memory_dataset_type_checks
          [of "\<lparr>pandas_DataFrame = (\<lambda>x. x = ''pandas frame''), pyspark = None\<rparr>"
              "[(''dataset'', PObj ''spark frame'')]"]
        in_memory_dataset_type_checks
          [of "\<lparr>pandas_DataFrame = (\<lambda>x. x = ''pandas frame''),
                pyspark = Some (\<lambda>x. x = ''spark frame'')\<rparr>"
              "[(''dataset'', PObj ''pandas frame'')]"]
  by (simp add: isinstance_obj_def PandasDatasourceInMemoryBatchKwargs_init_def
        InMemoryBatchKwargs_init_def BatchKwargs_init_def dict_contains_def dict_getitem_def)

section \<open>Fingerprints\<close>

lemma sort_key_fst_content:
  fixes d1 d2 :: "'o pydict"
  assumes d1: "distinct (map fst d1)" and d2: "distinct (map fst d2)"
    and content: "map_of d1 = map_of d2"
  shows "sort_key fst d1 = sort_key fst d2"
proof (rule sort_key_inj_key_eq)
  from d1 d2 content have "set d1 = set d2"
    by (simp add: map_of_inject_set)
  moreover from d1 have "distinct d1" by (simp only: distinct_map)
  moreover from d2 have "distinct d2" by (simp only: distinct_map)
  ultimately have "mset d1 = mset d2"
    by (simp add: set_eq_iff_mset_eq_distinct)
  then show "mset d1 = mset (sort_key fst d2)" by (simp only: mset_sort)
  from d1 show "inj_on fst (set d1)" by (simp only: distinct_map)
  show "sorted (map fst (sort_key fst d2))" by (rule sorted_sort_key)
qed

lemma keys_canonical_items:
  "map fst (map (\<lambda>(k, v). (k, canonical v)) d) = map fst d"
  by (induction d) auto

lemma map_of_canonical_items:
  "map_of (map (\<lambda>(k, v). (k, canonical v)) d) k = map_option canonical (map_of d k)"
  by (induction d) auto

lemma same_keys:
  assumes "distinct (map fst d1)" and "distinct (map fst d2)" and "length d1 = length d2"
    and "fst ` set d1 \<subseteq> fst ` set d2"
  shows "fst ` set d1 = fst ` set d2"
proof -
  have "card (set (map fst d1)) = length d1" "card (set (map fst d2)) = length d2"
    using assms(1,2) by (simp_all add: distinct_card del: set_map)
  with assms(3) have "card (set (map fst d2)) \<le> card (set (map fst d1))" by simp
  moreover from assms(4) have "set (map fst d1) \<subseteq> set (map fst d2)" by simp
  ultimately have "set (map fst d1) = set (map fst d2)"
    by (intro card_seteq) simp_all
  then show ?thesis by simp
qed

lemma py_eq_canonical:
  "well_formed a \<Longrightarrow> well_formed b \<Longrightarrow> py_eq a b \<Longrightarrow> canonical a = canonical b"
proof (induction a b rule: py_eq.induct)
  case (7 xs ys)
  have "map canonical xs = map canonical ys"
  proof (rule nth_equalityI)
    from "7.prems" show "length (map canonical xs) = length (map canonical ys)" by simp
  next
    fix i assume "i < length (map canonical xs)"
    with "7.prems" have i: "i < length xs" "i < length ys" by simp_all
    then have mem: "(xs ! i, ys ! i) \<in> set (zip xs ys)"
      by (auto simp: set_zip)
    from i "7.prems" have "well_formed (xs ! i)" "well_formed (ys ! i)"
      by (simp_all add: list_all_length)
    moreover from mem "7.prems" have "py_eq (xs ! i) (ys ! i)"
      by (auto simp: list_all_iff)
    ultimately have "canonical (xs ! i) = canonical (ys ! i)"
      using "7.IH" [OF mem refl] by simp
    with i show "map canonical xs ! i = map canonical ys ! i" by simp
  qed
  then show ?case by simp
next
  case (8 d1 d2)
  let ?c1 = "map (\<lambda>(k, v). (k, canonical v)) d1"
  let ?c2 = "map (\<lambda>(k, v). (k, canonical v)) d2"
  from "8.prems" have dist: "distinct (map fst d1)" "distinct (map fst d2)"
    and len: "length d1 = length d2" by simp_all
  have entry: "\<exists>w. map_of d2 k = Some w \<and> canonical v = canonical w"
    if kv: "(k, v) \<in> set d1" for k v
  proof -
    from kv "8.prems"(3) obtain w where w: "map_of d2 k = Some w" and eq: "py_eq v w"
      by (auto simp: list_all_iff split: option.splits)
    from kv "8.prems"(1) have "well_formed v" by (auto simp: list_all_iff)
    moreover from w have "(k, w) \<in> set d2" by (rule map_of_SomeD)
    with "8.prems"(2) have "well_formed w" by (auto simp: list_all_iff)
    ultimately have "canonical v = canonical w"
      using "8.IH" [OF kv refl w] eq by simp
    with w show ?thesis by blast
  qed
  then have "fst ` set d1 \<subseteq> fst ` set d2"
    by (force dest: map_of_SomeD)
  with dist len have keys: "fst ` set d1 = fst ` set d2" by (rule same_keys)
  have "map_of ?c1 k = map_of ?c2 k" for k
  proof (cases "map_of d1 k")
    case None
    then have "k \<notin> fst ` set d1" by (simp add: map_of_eq_None_iff)
    with keys have "map_of d2 k = None" by (simp add: map_of_eq_None_iff)
    with None show ?thesis by (simp add: map_of_canonical_items)
  next
    case (Some v)
    then have "(k, v) \<in> set d1" by (rule map_of_SomeD)
    from entry [OF this] Some show ?thesis by (auto simp: map_of_canonical_items)
  qed
  then have "map_of ?c1 = map_of ?c2" by (rule ext)
  moreover from dist have "distinct (map fst ?c1)" "distinct (map fst ?c2)"
    by (simp_all only: keys_canonical_items)
  ultimately have "sort_key fst ?c1 = sort_key fst ?c2"
    by (intro sort_key_fst_content)
  then show ?case by simp
qed simp_all

text \<open>
  C10. Two \<open>BatchKwargs\<close> mappings with the same key/value content have the same
  fingerprint, in whatever order their keys were inserted, at the top and in every mapping
  nested in their values.
\<close>

theorem fingerprint_insertion_order:
  assumes "well_formed (PDict m1)" and "well_formed (PDict m2)"
    and "py_eq (PDict m1) (PDict m2)"
  shows "batch_kwargs_fingerprint digest m1 = batch_kwargs_fingerprint digest m2"
proof -
  from assms have "canonical (PDict m1) = canonical (PDict m2)"
    by (rule py_eq_canonical)
  then show ?thesis
    by (simp only: batch_kwargs_fingerprint_def)
qed

theorem fingerprint_insertion_order_witness:
  "well_formed (PDict (BatchKwargs_init
       [(''path'', PStr ''a.csv'' :: unit pyval),
        (''reader_options'', PDict [(''sep'', PStr '';''), (''header'', PInt 0)])]))
   \<and> well_formed (PDict (BatchKwargs_init
       [(''reader_options'', PDict [(''header'', PInt 0), (''sep'', PStr '';'')]),
        (''path'', PStr ''a.csv'' :: unit pyval)]))
   \<and> py_eq
        (PDict (BatchKwargs_init
          [(''path'', PStr ''a.csv'' :: unit pyval),
           (''reader_options'', PDict [(''sep'', PStr '';''), (''header'', PInt 0)])]))
        (PDict (BatchKwargs_init
          [(''reader_options'', PDict [(''header'', PInt 0), (''sep'', PStr '';'')]),
           (''path'', PStr ''a.csv'' :: unit pyval)]))
   \<and> BatchKwargs_init
          [(''path'', PStr ''a.csv'' :: unit pyval),
           (''reader_options'', PDict [(''sep'', PStr '';''), (''header'', PInt 0)])]
     \<noteq> BatchKwargs_init
          [(''reader_options'', PDict [(''header'', PInt 0), (''sep'', PStr '';'')]),
           (''path'', PStr ''a.csv'' :: unit pyval)]
   \<and> batch_kwargs_fingerprint id (BatchKwargs_init
          [(''path'', PStr ''a.csv'' :: unit pyval),
           (''reader_options'', PDict [(''sep'', PStr '';''), (''header'', PInt 0)])])
     = batch_kwargs_fingerprint id (BatchKwargs_init
          [(''reader_options'', PDict [(''header'', PInt 0), (''sep'', PStr '';'')]),
           (''path'', PStr ''a.csv'' :: unit pyval)])"
proof -
  have wf1: "well_formed (PDict (BatchKwargs_init
       [(''path'', PStr ''a.csv'' :: unit pyval),
        (''reader_options'', PDict [(''sep'', PStr '';''), (''header'', PInt 0)])]))"
    by (simp add: BatchKwargs_init_def)
  have wf2: "well_formed (PDict (BatchKwargs_init
       [(''reader_options'', PDict [(''header'', PInt 0), (''sep'', PStr '';'')]),
        (''path'', PStr ''a.csv'' :: unit pyval)]))"
    by (simp add: BatchKwargs_init_def)
  have content: "py_eq
        (PDict (BatchKwargs_init
          [(''path'', PStr ''a.csv'' :: unit pyval),
           (''reader_options'', PDict [(''sep'', PStr '';''), (''header'', PInt 0)])]))
        (PDict (BatchKwargs_init
          [(''reader_options'', PDict [(''header'', PInt 0), (''sep'', PStr '';'')]),
           (''path'', PStr ''a.csv'' :: unit pyval)]))"
    by (simp add: BatchKwargs_init_def)
  have order: "BatchKwargs_init
          [(''path'', PStr ''a.csv'' :: unit pyval),
           (''reader_options'', PDict [(''sep'', PStr '';''), (''header'', PInt 0)])]
     \<noteq> BatchKwargs_init
          [(''reader_options'', PDict [(''header'', PInt 0), (''sep'', PStr '';'')]),
           (''path'', PStr ''a.csv'' :: unit pyval)]"
    by (simp add: BatchKwargs_init_def)
  show ?thesis
    by (intro conjI wf1 wf2 content order fingerprint_insertion_order [OF wf1 wf2 content])
qed

section \<open>The checkpoint commands\<close>

lemma usage_events_append: "usage_events (t @ t') = usage_events t @ usage_events t'"
  by (induction t rule: usage_events.induct) simp_all

lemma messages_append: "messages (t @ t') = messages t @ messages t'"
  by (induction t rule: messages.induct) simp_all

lemma load_batch_calls_append:
  "load_batch_calls (t @ t') = load_batch_calls t @ load_batch_calls t'"
  by (induction t rule: load_batch_calls.induct) simp_all

text \<open>
  C5. The specification asks for exactly one success or failure usage event per invocation of
  \<open>checkpoint run\<close> and \<open>checkpoint list\<close>. \<open>checkpoint_list\<close> (lines 91-103) sends none:
  whatever the collaborators do, the usage events of the trace after the command are those
  before it.
\<close>

theorem checkpoint_list_sends_no_usage_message:
  "usage_events (snd (checkpoint_list env directory t)) = usage_events t"
  by (simp add: checkpoint_list_def then_do_def pure_def cli_message_def sys_exit_def
      cli_message_list_def Let_def usage_events_append split: sum.splits)

text \<open>
  The project of \<open>test_checkpoint_list\<close>, with the one checkpoint \<open>my_checkpoint\<close>: the command
  prints the list and returns.
\<close>

lemma checkpoint_list_one_checkpoint:
  "checkpoint_list
     (titanic_data_context
        [(''my_checkpoint'', checkpoint_definition ''action_list_operator'' [])] []
        (Exception KeyError ''foo''))
     None []
   = (Inr (), [CliMessageList [''my_checkpoint''] ''Found 1 checkpoint.''])"
  by (simp add: checkpoint_list_def then_do_def pure_def cli_message_list_def Let_def
      titanic_data_context_def)

text \<open>
  What holds of the two loops in every project: a descriptor without suite names is passed
  over; a batch load that fails with a data-context error ends the loop with the
  \<open>TypeError\<close> of the call at line 145; and the loops print no message and send no usage
  event, however they end.
\<close>

lemma batch_loop_skips_empty_suite_list:
  "getitem env batch ''expectation_suite_names'' = Inr (PList []) \<Longrightarrow>
   batch_loop env context (batch # rest) batches_to_validate t
     = batch_loop env context rest batches_to_validate t"
  by (simp add: iterate_def)

lemma suite_loop_load_failure:
  assumes "load_expectation_suite env context suite_name = Inr suite"
    and "getitem env batch ''batch_kwargs'' = Inr batch_kwargs"
    and "load_batch env context suite batch_kwargs = Inl (Exception c msg)"
    and "isinstance_exn env c DataContextError"
  shows "suite_loop env context (suite_name # rest) batch batches_to_validate t
     = (Inl (Exception TypeError
          (''_exit_with_failure_message() missing 2 required positional arguments: ''
           @ [CHR 0x27] @ ''usage_event'' @ [CHR 0x27] @ '' and ''
           @ [CHR 0x27] @ ''message'' @ [CHR 0x27])),
        t @ [LoadExpectationSuite suite_name, LoadBatch suite batch_kwargs])"
  using assms by simp

lemma suite_loop_is_silent:
  "messages (snd (suite_loop env context suite_names batch batches_to_validate t)) = messages t
   \<and> usage_events (snd (suite_loop env context suite_names batch batches_to_validate t))
       = usage_events t"
proof (induction suite_names arbitrary: batch batches_to_validate t)
  case Nil
  show ?case by simp
next
  case (Cons suite_name rest)
  show ?case
    by (simp add: Cons.IH messages_append usage_events_append Let_def
        split: sum.splits exn.splits)
qed

lemma batch_loop_is_silent:
  "messages (snd (batch_loop env context batches batches_to_validate t)) = messages t
   \<and> usage_events (snd (batch_loop env context batches batches_to_validate t))
       = usage_events t"
proof (induction batches arbitrary: batches_to_validate t)
  case Nil
  show ?case by simp
next
  case (Cons batch rest)
  show ?case
  proof (cases "getitem env batch ''expectation_suite_names''")
    case (Inl e)
    then show ?thesis by simp
  next
    case names: (Inr names)
    show ?thesis
    proof (cases "iterate env names")
      case (Inl e)
      with names show ?thesis by simp
    next
      case suite_names: (Inr suite_names)
      obtain r t1 where
        inner: "suite_loop env context suite_names batch batches_to_validate t = (r, t1)"
        by (cases "suite_loop env context suite_names batch batches_to_validate t")
      from inner suite_loop_is_silent [of env "context" suite_names batch batches_to_validate t]
      have t1: "messages t1 = messages t" "usage_events t1 = usage_events t"
        by simp_all
      show ?thesis
      proof (cases r)
        case (Inl e)
        with names suite_names inner t1 show ?thesis by simp
      next
        case (Inr batches_to_validate1)
        from Cons.IH [of batches_to_validate1 t1] names suite_names inner t1 Inr
        show ?thesis by simp
      qed
    qed
  qed
qed

lemmas run_simps =
  checkpoint_run_def get_checkpoint_config_def then_do_def pure_def cli_message_def
  send_usage_message_def sys_exit_def Let_def getitem_def dict_getitem_def iterate_def
  truthy_def isinstance_exn_def titanic_data_context_def checkpoint_definition_def
  batch_descriptor_def getitem_path_def ge_issubclass_def

text \<open>
  C1. The specification asks that a batch descriptor without suite names fails the run with the
  message "A batch has no suites associated with it.", exit status 1 and no partial execution.
  On a checkpoint whose second descriptor has no suite names the code loads and validates the
  batch of the first descriptor, prints "Validation Succeeded!" and exits with status 0: the
  inner loop runs zero times and nothing checks the list.
\<close>

theorem empty_suite_list_is_skipped:
  "checkpoint_run
     (titanic_data_context
        [(''bad_batch'',
          checkpoint_definition ''action_list_operator''
            [batch_descriptor ''data/Titanic.csv'' [''bar''],
             batch_descriptor ''/totally/not/a/file.csv'' []])]
        [''bar''] (Exception KeyError ''foo''))
     ''bad_batch'' None []
   = (Inl (SystemExit 0),
      [LoadExpectationSuite (PStr ''bar''),
       LoadBatch (PObj (ExpectationSuite ''bar''))
         (PDict [(''path'', PStr ''data/Titanic.csv''), (''datasource'', PStr ''mydatasource''),
                 (''reader_method'', PStr ''read_csv'')]),
       RunValidationOperator (PStr ''action_list_operator'')
         [PObj (Batch ''bar'' ''data/Titanic.csv'')],
       CliMessage ''Validation Succeeded!'',
       UsageMessage ''cli.checkpoint.list'' True])"
  by (simp add: run_simps)

text \<open>
  C2. The specification asks that a failing batch load prints "There was a problem loading a batch
  with these batch_kwargs", sends one failure event and exits with status 1. On the checkpoint
  of \<open>test_checkpoint_run_on_checkpoint_with_batch_load_problem\<close> the handler at line 145 calls
  \<open>_exit_with_failure_message\<close> with one argument: the run ends with a \<open>TypeError\<close>, having
  printed no message and sent no usage event. No further batch is loaded.
\<close>

theorem batch_load_failure_raises_TypeError:
  "checkpoint_run
     (titanic_data_context
        [(''bad_batch'',
          checkpoint_definition ''action_list_operator''
            [batch_descriptor ''/totally/not/a/file.csv'' [''bar'']])]
        [''bar''] (Exception KeyError ''foo''))
     ''bad_batch'' None []
   = (Inl (Exception TypeError
        (''_exit_with_failure_message() missing 2 required positional arguments: ''
         @ [CHR 0x27] @ ''usage_event'' @ [CHR 0x27] @ '' and ''
         @ [CHR 0x27] @ ''message'' @ [CHR 0x27])),
      [LoadExpectationSuite (PStr ''bar''),
       LoadBatch (PObj (ExpectationSuite ''bar''))
         (PDict [(''path'', PStr ''/totally/not/a/file.csv''),
                 (''datasource'', PStr ''mydatasource''),
                 (''reader_method'', PStr ''read_csv'')])])"
  by (simp add: run_simps)

text \<open>
  C4. The specification asks that an unregistered validation operator prints "No validation operator
  `foo` was found in your project.", and exits with status 1. \<open>checkpoint_run\<close> calls
  \<open>run_validation_operator\<close> outside any \<open>try\<close> (lines 150-155): on the checkpoint of
  \<open>test_checkpoint_run_on_non_existent_validation_operator\<close> whatever the project context raises
  for \<open>foo\<close> leaves the command as it is, and the command prints no message and sends no usage
  event.
\<close>

theorem unknown_operator_error_is_not_handled:
  "checkpoint_run
     (titanic_data_context
        [(''bad_operator'',
          checkpoint_definition ''foo'' [batch_descriptor ''data/Titanic.csv'' [''iceberg'']])]
        [''iceberg''] unknown_operator)
     ''bad_operator'' None []
   = (Inl unknown_operator,
      [LoadExpectationSuite (PStr ''iceberg''),
       LoadBatch (PObj (ExpectationSuite ''iceberg''))
         (PDict [(''path'', PStr ''data/Titanic.csv''), (''datasource'', PStr ''mydatasource''),
                 (''reader_method'', PStr ''read_csv'')]),
       RunValidationOperator (PStr ''foo'') [PObj (Batch ''iceberg'' ''data/Titanic.csv'')]])"
  by (simp add: run_simps)

text \<open>
  C6. The specification counts the empty suite list among the failure paths that end with exit
  status 1. On the checkpoint of \<open>test_checkpoint_run_on_checkpoint_with_empty_suite_list\<close>,
  completed by a registered validation operator, the code hands the operator an empty sequence
  of batches and exits with status 0.
\<close>

theorem empty_suite_list_exits_0:
  "checkpoint_run
     (titanic_data_context
        [(''bad_batch'',
          checkpoint_definition ''action_list_operator''
            [batch_descriptor ''/totally/not/a/file.csv'' []])]
        [] (Exception KeyError ''foo''))
     ''bad_batch'' None []
   = (Inl (SystemExit 0),
      [RunValidationOperator (PStr ''action_list_operator'') [],
       CliMessage ''Validation Succeeded!'',
       UsageMessage ''cli.checkpoint.list'' True])"
  by (simp add: run_simps)

section \<open>The loop over the suite names\<close>

text \<open>
  With the batches of the test project, which are pandas datasets, the second suite name of a
  descriptor ends the run: the lookup of \<open>batch_kwargs\<close> on the loaded batch raises.
\<close>

lemma second_suite_on_a_pandas_batch_raises_KeyError:
  "suite_loop (titanic_data_context [] [''suite_one'', ''suite_two''] (Exception KeyError ''foo''))
     ''great_expectations'' [PStr ''suite_one'', PStr ''suite_two'']
     (batch_descriptor ''data/Titanic.csv'' [''suite_one'', ''suite_two'']) [] []
   = (Inl (Exception KeyError ''batch_kwargs''),
      [LoadExpectationSuite (PStr ''suite_one''),
       LoadBatch (PObj (ExpectationSuite ''suite_one''))
         (PDict [(''path'', PStr ''data/Titanic.csv''), (''datasource'', PStr ''mydatasource''),
                 (''reader_method'', PStr ''read_csv'')]),
       LoadExpectationSuite (PStr ''suite_two'')])"
  by (simp add: titanic_data_context_def batch_descriptor_def getitem_def dict_getitem_def
      getitem_path_def)

section \<open>The loops and the pairs of descriptor and suite name\<close>

lemma validation_operator_runs_append:
  "validation_operator_runs (t @ t')
     = validation_operator_runs t @ validation_operator_runs t'"
  by (induction t rule: validation_operator_runs.induct) simp_all

lemma map_option_append_Nil: "map_option ((@) []) x = x"
  by (cases x) simp_all

lemma map_option_Cons_append:
  "map_option ((#) b) (map_option ((@) loaded) x) = map_option ((@) (b # loaded)) x"
  by (cases x) simp_all

lemma map_option_append_append:
  "map_option ((@) acc) (map_option ((@) loaded) x) = map_option (\<lambda>a. acc @ loaded @ a) x"
  by (cases x) simp_all

lemma pairwise_loads_fresh:
  "pairwise_loads env context (descriptor_suite_pairs env batches) p
     = pairwise_loads env context (descriptor_suite_pairs env batches) q"
proof (induction batches)
  case Nil
  show ?case by simp
next
  case (Cons descriptor rest)
  show ?case
  proof (cases "getitem env descriptor ''expectation_suite_names''")
    case (Inl e)
    then show ?thesis by simp
  next
    case names: (Inr names)
    show ?thesis
    proof (cases "iterate env names")
      case (Inl e)
      with names show ?thesis by simp
    next
      case (Inr suite_names)
      with names Cons.IH show ?thesis
        by (cases suite_names) simp_all
    qed
  qed
qed

lemma pairwise_loads_of_descriptor:
  assumes "getitem env descriptor ''expectation_suite_names'' = Inr names"
    and "iterate env names = Inr suite_names"
  shows "pairwise_loads env context (descriptor_suite_pairs env (descriptor # rest)) p
     = pairwise_loads env context
         (map (\<lambda>n. SuitePair descriptor n False) suite_names
          @ descriptor_suite_pairs env rest) descriptor"
proof (cases suite_names)
  case Nil
  with assms show ?thesis
    using pairwise_loads_fresh [of env "context" rest p descriptor] by simp
next
  case (Cons suite_name later_names)
  with assms show ?thesis by simp
qed

lemma suite_loop_pairwise:
  assumes fresh: "\<And>p q. pairwise_loads env context later p = pairwise_loads env context later q"
  shows "\<exists>calls.
     load_batch_calls (snd (suite_loop env context names current acc t))
       = load_batch_calls t @ calls
     \<and> (case fst (suite_loop env context names current acc t) of
           Inl e \<Rightarrow>
             pairwise_loads env context (map (\<lambda>n. SuitePair d n False) names @ later) current
               = (calls, None)
         | Inr result \<Rightarrow>
             (\<exists>loaded. result = acc @ loaded
                \<and> pairwise_loads env context
                     (map (\<lambda>n. SuitePair d n False) names @ later) current
                   = (calls @ fst (pairwise_loads env context later p),
                      map_option ((@) loaded)
                        (snd (pairwise_loads env context later p)))))"
proof (induction names arbitrary: current acc t)
  case Nil
  show ?case
    using fresh [of current p] by (simp add: prod_eq_iff map_option_append_Nil)
next
  case (Cons suite_name rest)
  show ?case
  proof (cases "load_expectation_suite env context suite_name")
    case (Inl e)
    then show ?thesis by (simp add: load_batch_calls_append)
  next
    case suite: (Inr suite)
    show ?thesis
    proof (cases "getitem env current ''batch_kwargs''")
      case (Inl e)
      with suite show ?thesis by (simp add: load_batch_calls_append)
    next
      case kwargs: (Inr batch_kwargs)
      show ?thesis
      proof (cases "load_batch env context suite batch_kwargs")
        case (Inl e)
        with suite kwargs show ?thesis
          by (cases e) (simp_all add: load_batch_calls_append Let_def)
      next
        case (Inr b)
        let ?t1 = "t @ [LoadExpectationSuite suite_name, LoadBatch suite batch_kwargs]"
        let ?R = "suite_loop env context rest b (acc @ [b]) ?t1"
        let ?spec = "pairwise_loads env context (map (\<lambda>n. SuitePair d n False) rest @ later) b"
        from Cons.IH [of b "acc @ [b]" ?t1] obtain calls where
          calls: "load_batch_calls (snd ?R) = load_batch_calls ?t1 @ calls" and
          rest: "case fst ?R of
                   Inl e \<Rightarrow> ?spec = (calls, None)
                 | Inr result \<Rightarrow>
                     (\<exists>loaded. result = (acc @ [b]) @ loaded
                        \<and> ?spec = (calls @ fst (pairwise_loads env context later p),
                             map_option ((@) loaded)
                               (snd (pairwise_loads env context later p))))"
          by blast
        have step: "suite_loop env context (suite_name # rest) current acc t = ?R"
          using suite kwargs Inr by (simp add: Let_def)
        have spec: "pairwise_loads env context
              (map (\<lambda>n. SuitePair d n False) (suite_name # rest) @ later) current
            = ((suite, batch_kwargs) # fst ?spec,
               map_option ((#) b) (snd ?spec))"
          using suite kwargs Inr by (simp add: case_prod_unfold)
        have "load_batch_calls (snd ?R)
                = load_batch_calls t @ (suite, batch_kwargs) # calls"
          using calls by (simp add: load_batch_calls_append)
        moreover have "case fst ?R of
           Inl e \<Rightarrow>
             pairwise_loads env context
               (map (\<lambda>n. SuitePair d n False) (suite_name # rest) @ later) current
               = ((suite, batch_kwargs) # calls, None)
         | Inr result \<Rightarrow>
             (\<exists>loaded. result = acc @ loaded
                \<and> pairwise_loads env context
                     (map (\<lambda>n. SuitePair d n False) (suite_name # rest) @ later) current
                   = (((suite, batch_kwargs) # calls) @ fst (pairwise_loads env context later p),
                      map_option ((@) loaded)
                        (snd (pairwise_loads env context later p))))"
        proof (cases "fst ?R")
          case (Inl e)
          with rest spec show ?thesis by simp
        next
          case (Inr result)
          with rest obtain loaded where
            "result = (acc @ [b]) @ loaded"
            "?spec = (calls @ fst (pairwise_loads env context later p),
                        map_option ((@) loaded)
                          (snd (pairwise_loads env context later p)))"
            by auto
          then have "result = acc @ (b # loaded)
              \<and> pairwise_loads env context
                     (map (\<lambda>n. SuitePair d n False) (suite_name # rest) @ later) current
                   = (((suite, batch_kwargs) # calls) @ fst (pairwise_loads env context later p),
                      map_option ((@) (b # loaded))
                        (snd (pairwise_loads env context later p)))"
            using spec by (simp add: map_option_Cons_append)
          with Inr show ?thesis by auto
        qed
        ultimately show ?thesis
          unfolding step by blast
      qed
    qed
  qed
qed

lemma batch_loop_pairwise:
  "load_batch_calls (snd (batch_loop env context batches acc t))
     = load_batch_calls t
       @ fst (pairwise_loads env context (descriptor_suite_pairs env batches) p)
   \<and> (case fst (batch_loop env context batches acc t) of
         Inl e \<Rightarrow> None
       | Inr result \<Rightarrow> Some result)
     = map_option ((@) acc)
         (snd (pairwise_loads env context (descriptor_suite_pairs env batches) p))"
proof (induction batches arbitrary: acc t)
  case Nil
  show ?case by simp
next
  case (Cons descriptor rest)
  show ?case
  proof (cases "getitem env descriptor ''expectation_suite_names''")
    case (Inl e)
    then show ?thesis by simp
  next
    case names: (Inr names)
    show ?thesis
    proof (cases "iterate env names")
      case (Inl e)
      with names show ?thesis by simp
    next
      case suite_names: (Inr suite_names)
      let ?later = "descriptor_suite_pairs env rest"
      let ?R = "suite_loop env context suite_names descriptor acc t"
      let ?spec = "pairwise_loads env context
           (map (\<lambda>n. SuitePair descriptor n False) suite_names @ ?later) descriptor"
      have spec: "pairwise_loads env context (descriptor_suite_pairs env (descriptor # rest)) p
                    = ?spec"
        using names suite_names by (rule pairwise_loads_of_descriptor)
      have "\<And>p q. pairwise_loads env context ?later p = pairwise_loads env context ?later q"
        by (rule pairwise_loads_fresh)
      from suite_loop_pairwise [OF this, of suite_names descriptor acc t descriptor p]
      obtain calls where
        calls: "load_batch_calls (snd ?R) = load_batch_calls t @ calls" and
        inner: "case fst ?R of
           Inl e \<Rightarrow> ?spec = (calls, None)
         | Inr result \<Rightarrow>
             (\<exists>loaded. result = acc @ loaded
                \<and> ?spec = (calls @ fst (pairwise_loads env context ?later p),
                      map_option ((@) loaded)
                        (snd (pairwise_loads env context ?later p))))"
        by blast
      show ?thesis
      proof (cases "fst ?R")
        case (Inl e)
        then have "batch_loop env context (descriptor # rest) acc t = (Inl e, snd ?R)"
          using names suite_names by (simp add: case_prod_unfold)
        with Inl inner calls spec show ?thesis by simp
      next
        case (Inr result)
        then have step: "batch_loop env context (descriptor # rest) acc t
            = batch_loop env context rest result (snd ?R)"
          using names suite_names by (simp add: case_prod_unfold)
        from Inr inner obtain loaded where
          result: "result = acc @ loaded" and
          s: "?spec = (calls @ fst (pairwise_loads env context ?later p),
                      map_option ((@) loaded)
                        (snd (pairwise_loads env context ?later p)))"
          by auto
        from Cons.IH [of result "snd ?R"] calls result s show ?thesis
          unfolding step spec by (simp add: map_option_append_append)
      qed
    qed
  qed
qed


lemma suite_loop_runs_no_operator:
  "validation_operator_runs (snd (suite_loop env context names current acc t))
     = validation_operator_runs t"
proof (induction names arbitrary: current acc t)
  case Nil
  show ?case by simp
next
  case (Cons suite_name rest)
  show ?case
    by (simp add: Cons.IH validation_operator_runs_append Let_def
        split: sum.splits exn.splits)
qed

lemma batch_loop_runs_no_operator:
  "validation_operator_runs (snd (batch_loop env context batches acc t))
     = validation_operator_runs t"
proof (induction batches arbitrary: acc t)
  case Nil
  show ?case by simp
next
  case (Cons descriptor rest)
  show ?case
  proof (cases "getitem env descriptor ''expectation_suite_names''")
    case (Inl e)
    then show ?thesis by simp
  next
    case names: (Inr names)
    show ?thesis
    proof (cases "iterate env names")
      case (Inl e)
      with names show ?thesis by simp
    next
      case suite_names: (Inr suite_names)
      obtain r t1 where
        inner: "suite_loop env context suite_names descriptor acc t = (r, t1)"
        by (cases "suite_loop env context suite_names descriptor acc t")
      from inner suite_loop_runs_no_operator [of env "context" suite_names descriptor acc t]
      have t1: "validation_operator_runs t1 = validation_operator_runs t"
        by simp
      show ?thesis
      proof (cases r)
        case (Inl e)
        with names suite_names inner t1 show ?thesis by simp
      next
        case (Inr acc1)
        from Cons.IH [of acc1 t1] names suite_names inner t1 Inr
        show ?thesis by simp
      qed
    qed
  qed
qed

lemma get_checkpoint_config_result:
  "validation_operator_runs (snd (get_checkpoint_config env context usage_event checkpoint t))
     = validation_operator_runs t
   \<and> (case fst (get_checkpoint_config env context usage_event checkpoint t) of
         Inl e \<Rightarrow> None
       | Inr checkpoint_config \<Rightarrow> Some checkpoint_config)
     = (case get_checkpoint env context checkpoint of
         Inl e \<Rightarrow> None
       | Inr checkpoint_config \<Rightarrow> Some checkpoint_config)"
  by (simp add: get_checkpoint_config_def pure_def then_do_def cli_message_def
      send_usage_message_def sys_exit_def validation_operator_runs_append
      split: sum.splits exn.splits)

lemma then_do_fst_snd:
  "then_do m f t = (case fst (m t) of Inl e \<Rightarrow> (Inl e, snd (m t)) | Inr x \<Rightarrow> f x (snd (m t)))"
  by (simp add: then_do_def case_prod_unfold split: sum.splits)

text \<open>
  C3. The loops of \<open>checkpoint_run\<close> load one batch per pair of a batch descriptor and one of
  its suite names, and the validation operator is handed, in one call, the batches loaded for
  all the pairs, in order. The kwargs of each load are \<open>batch["batch_kwargs"]\<close> for the value the
  loop variable \<open>batch\<close> has then: the descriptor for the first suite name of a descriptor,
  and the batch loaded just before for the second and every later suite name, since line 143
  assigns the loaded batch to \<open>batch\<close>. This holds of every run, also of one that a failing
  step ends: the calls of \<open>load_batch\<close> made up to there are those of the pairs, and nothing is
  dispatched.
\<close>

theorem one_batch_per_descriptor_and_suite_name:
  "load_batch_calls (snd (batch_loop env context batches batches_to_validate t))
     = load_batch_calls t
       @ fst (pairwise_loads env context (descriptor_suite_pairs env batches) previous)
   \<and> (case fst (batch_loop env context batches batches_to_validate t) of
         Inl e \<Rightarrow> None
       | Inr result \<Rightarrow> Some result)
     = map_option ((@) batches_to_validate)
         (snd (pairwise_loads env context (descriptor_suite_pairs env batches) previous))
   \<and> validation_operator_runs (snd (checkpoint_run env checkpoint directory t))
     = validation_operator_runs t
       @ (case load_data_context_with_error_handling env directory of
            Inl e \<Rightarrow> []
          | Inr context \<Rightarrow>
              (case get_checkpoint env context checkpoint of
                 Inl e \<Rightarrow> []
               | Inr checkpoint_config \<Rightarrow>
                   (case getitem env checkpoint_config ''batches'' of
                      Inl e \<Rightarrow> []
                    | Inr descriptors \<Rightarrow>
                        (case iterate env descriptors of
                           Inl e \<Rightarrow> []
                         | Inr batch_list \<Rightarrow>
                             (case snd (pairwise_loads env context
                                          (descriptor_suite_pairs env batch_list) previous) of
                                None \<Rightarrow> []
                              | Some dispatched \<Rightarrow>
                                  (case getitem env checkpoint_config
                                          ''validation_operator_name'' of
                                     Inl e \<Rightarrow> []
                                   | Inr validation_operator_name \<Rightarrow>
                                       [(validation_operator_name, dispatched)]))))))"
  (is "?calls \<and> ?result \<and> ?dispatch")
proof (intro conjI)
  show ?calls ?result
    using batch_loop_pairwise [of env "context" batches batches_to_validate t previous]
    by simp_all
next
  show ?dispatch
  proof (cases "load_data_context_with_error_handling env directory")
    case (Inl e)
    then show ?thesis by (simp add: checkpoint_run_def then_do_fst_snd pure_def)
  next
    case ctx: (Inr ctx)
    let ?G = "get_checkpoint_config env ctx ''cli.checkpoint.list'' checkpoint t"
    note G = get_checkpoint_config_result [of env ctx "''cli.checkpoint.list''" checkpoint t]
    show ?thesis
    proof (cases "fst ?G")
      case (Inl e)
      with G ctx show ?thesis
        by (simp add: checkpoint_run_def then_do_fst_snd pure_def Let_def
            split: sum.splits)
    next
      case cfg: (Inr cfg)
      with G have get: "get_checkpoint env ctx checkpoint = Inr cfg"
        and t1: "validation_operator_runs (snd ?G) = validation_operator_runs t"
        by (simp_all split: sum.splits)
      show ?thesis
      proof (cases "getitem env cfg ''batches''")
        case (Inl e)
        with ctx cfg get t1 show ?thesis
          by (simp add: checkpoint_run_def then_do_fst_snd pure_def Let_def)
      next
        case descriptors: (Inr descriptors)
        show ?thesis
        proof (cases "iterate env descriptors")
          case (Inl e)
          with ctx cfg get t1 descriptors show ?thesis
            by (simp add: checkpoint_run_def then_do_fst_snd pure_def Let_def)
        next
          case batch_list: (Inr batch_list)
          let ?B = "batch_loop env ctx batch_list [] (snd ?G)"
          let ?spec = "pairwise_loads env ctx (descriptor_suite_pairs env batch_list) previous"
          from batch_loop_pairwise [of env ctx batch_list "[]" "snd ?G" previous]
          have B: "(case fst ?B of Inl e \<Rightarrow> None | Inr result \<Rightarrow> Some result) = snd ?spec"
            by (simp add: map_option_append_Nil)
          have t2: "validation_operator_runs (snd ?B) = validation_operator_runs t"
            using t1 by (simp add: batch_loop_runs_no_operator)
          show ?thesis
          proof (cases "fst ?B")
            case (Inl e)
            with B have "snd ?spec = None" by simp
            with Inl ctx cfg get t2 descriptors batch_list show ?thesis
              by (simp add: checkpoint_run_def then_do_fst_snd pure_def Let_def)
          next
            case (Inr dispatched)
            with B have "snd ?spec = Some dispatched" by simp
            with Inr ctx cfg get t2 descriptors batch_list show ?thesis
              by (simp add: checkpoint_run_def then_do_fst_snd pure_def Let_def
                  cli_message_def send_usage_message_def sys_exit_def
                  validation_operator_runs_append split: sum.splits)
          qed
        qed
      qed
    qed
  qed
qed

theorem one_batch_per_descriptor_and_suite_name_witness:
  "load_batch_calls (snd (batch_loop
       (titanic_data_context
          [(''two_suites'',
            checkpoint_definition ''action_list_operator''
              [batch_descriptor ''data/Titanic.csv'' [''suite_one'', ''suite_two'']])]
          [''suite_one'', ''suite_two''] (Exception KeyError ''foo''))
       ''great_expectations''
       [batch_descriptor ''data/Titanic.csv'' [''suite_one'', ''suite_two'']] [] []))
     = [(PObj (ExpectationSuite ''suite_one''),
         PDict [(''path'', PStr ''data/Titanic.csv''), (''datasource'', PStr ''mydatasource''),
                (''reader_method'', PStr ''read_csv'')])]
   \<and> getitem
       (titanic_data_context
          [(''two_suites'',
            checkpoint_definition ''action_list_operator''
              [batch_descriptor ''data/Titanic.csv'' [''suite_one'', ''suite_two'']])]
          [''suite_one'', ''suite_two''] (Exception KeyError ''foo''))
       (PObj (Batch ''suite_one'' ''data/Titanic.csv'')) ''batch_kwargs''
     = Inl (Exception KeyError ''batch_kwargs'')
   \<and> fst (batch_loop
       (titanic_data_context
          [(''two_suites'',
            checkpoint_definition ''action_list_operator''
              [batch_descriptor ''data/Titanic.csv'' [''suite_one'', ''suite_two'']])]
          [''suite_one'', ''suite_two''] (Exception KeyError ''foo''))
       ''great_expectations''
       [batch_descriptor ''data/Titanic.csv'' [''suite_one'', ''suite_two'']] [] [])
     = Inl (Exception KeyError ''batch_kwargs'')
   \<and> validation_operator_runs (snd (checkpoint_run
       (titanic_data_context
          [(''two_suites'',
            checkpoint_definition ''action_list_operator''
              [batch_descriptor ''data/Titanic.csv'' [''suite_one'', ''suite_two'']])]
          [''suite_one'', ''suite_two''] (Exception KeyError ''foo''))
       ''two_suites'' None []))
     = []
   \<and> validation_operator_runs (snd (checkpoint_run
       (titanic_data_context
          [(''two_batches'',
            checkpoint_definition ''action_list_operator''
              [batch_descriptor ''data/Titanic.csv'' [''suite_one''],
               batch_descriptor ''data/Titanic.csv'' [''suite_two'']])]
          [''suite_one'', ''suite_two''] (Exception KeyError ''foo''))
       ''two_batches'' None []))
     = [(PStr ''action_list_operator'',
         [PObj (Batch ''suite_one'' ''data/Titanic.csv''),
          PObj (Batch ''suite_two'' ''data/Titanic.csv'')])]"
proof -
  let ?d = "batch_descriptor ''data/Titanic.csv'' [''suite_one'', ''suite_two'']"
  let ?cfg = "checkpoint_definition ''action_list_operator'' [?d]"
  let ?env = "titanic_data_context [(''two_suites'', ?cfg)] [''suite_one'', ''suite_two'']
                (Exception KeyError ''foo'')"
  let ?d1 = "batch_descriptor ''data/Titanic.csv'' [''suite_one'']"
  let ?d2 = "batch_descriptor ''data/Titanic.csv'' [''suite_two'']"
  let ?cfg2 = "checkpoint_definition ''action_list_operator'' [?d1, ?d2]"
  let ?env2 = "titanic_data_context [(''two_batches'', ?cfg2)] [''suite_one'', ''suite_two'']
                (Exception KeyError ''foo'')"
  note defs = titanic_data_context_def checkpoint_definition_def batch_descriptor_def
      getitem_def dict_getitem_def iterate_def getitem_path_def
  have loads: "pairwise_loads ?env ''great_expectations'' (descriptor_suite_pairs ?env [?d]) PNone
      = ([(PObj (ExpectationSuite ''suite_one''),
           PDict [(''path'', PStr ''data/Titanic.csv''), (''datasource'', PStr ''mydatasource''),
                  (''reader_method'', PStr ''read_csv'')])], None)"
    by (simp add: defs)
  have loads2: "pairwise_loads ?env2 ''great_expectations''
        (descriptor_suite_pairs ?env2 [?d1, ?d2]) PNone
      = ([(PObj (ExpectationSuite ''suite_one''),
           PDict [(''path'', PStr ''data/Titanic.csv''), (''datasource'', PStr ''mydatasource''),
                  (''reader_method'', PStr ''read_csv'')]),
          (PObj (ExpectationSuite ''suite_two''),
           PDict [(''path'', PStr ''data/Titanic.csv''), (''datasource'', PStr ''mydatasource''),
                  (''reader_method'', PStr ''read_csv'')])],
         Some [PObj (Batch ''suite_one'' ''data/Titanic.csv''),
               PObj (Batch ''suite_two'' ''data/Titanic.csv'')])"
    by (simp add: defs)
  have read: "load_data_context_with_error_handling ?env None = Inr ''great_expectations''"
    "get_checkpoint ?env ''great_expectations'' ''two_suites'' = Inr ?cfg"
    "getitem ?env ?cfg ''batches'' = Inr (PList [?d])"
    "iterate ?env (PList [?d]) = Inr [?d]"
    by (simp_all add: defs)
  have read2: "load_data_context_with_error_handling ?env2 None = Inr ''great_expectations''"
    "get_checkpoint ?env2 ''great_expectations'' ''two_batches'' = Inr ?cfg2"
    "getitem ?env2 ?cfg2 ''batches'' = Inr (PList [?d1, ?d2])"
    "iterate ?env2 (PList [?d1, ?d2]) = Inr [?d1, ?d2]"
    "getitem ?env2 ?cfg2 ''validation_operator_name'' = Inr (PStr ''action_list_operator'')"
    by (simp_all add: defs)
  note run = one_batch_per_descriptor_and_suite_name
    [of ?env "''great_expectations''" "[?d]" "[]" "[]" PNone "''two_suites''" None]
  note run2 = one_batch_per_descriptor_and_suite_name
    [of ?env2 "''great_expectations''" "[]" "[]" "[]" PNone "''two_batches''" None]
  have "load_batch_calls (snd (batch_loop ?env ''great_expectations'' [?d] [] []))
     = [(PObj (ExpectationSuite ''suite_one''),
         PDict [(''path'', PStr ''data/Titanic.csv''), (''datasource'', PStr ''mydatasource''),
                (''reader_method'', PStr ''read_csv'')])]"
    using run by (simp only: loads fst_conv load_batch_calls.simps append_Nil)
  moreover have "getitem ?env (PObj (Batch ''suite_one'' ''data/Titanic.csv'')) ''batch_kwargs''
     = Inl (Exception KeyError ''batch_kwargs'')"
    by (simp add: defs)
  moreover have "fst (batch_loop ?env ''great_expectations'' [?d] [] [])
     = Inl (Exception KeyError ''batch_kwargs'')"
    by (simp add: defs)
  moreover have "validation_operator_runs (snd (checkpoint_run ?env ''two_suites'' None [])) = []"
    using run by (simp only: read loads snd_conv sum.case option.case
        validation_operator_runs.simps append_Nil)
  moreover have "validation_operator_runs (snd (checkpoint_run ?env2 ''two_batches'' None []))
     = [(PStr ''action_list_operator'',
         [PObj (Batch ''suite_one'' ''data/Titanic.csv''),
          PObj (Batch ''suite_two'' ''data/Titanic.csv'')])]"
    using run2 by (simp only: read2 loads2 snd_conv sum.case option.case
        validation_operator_runs.simps append_Nil)
  ultimately show ?thesis by (intro conjI)
qed

end
